theory Spec2Isabelle
  imports Complex_Main
begin

section \<open>Data model of \<^verbatim>\<open>main.go\<close>\<close>

text \<open>
  A \<^verbatim>\<open>float64\<close> is used by the program only as an operand of \<^verbatim>\<open>!=\<close> and as a value
  that is copied. The finite values are embedded in the reals (both zeros are
  \<open>Finite 0\<close>: they compare equal), the two infinities and NaN are values of their own.
  \<open>float_ne\<close> is Go's \<^verbatim>\<open>!=\<close>: NaN differs from every value, itself included.
\<close>

datatype float64 = Finite real | PosInf | NegInf | NaN

definition float_ne :: "float64 \<Rightarrow> float64 \<Rightarrow> bool" where
  "float_ne a b = (if a = NaN \<or> b = NaN then True else a \<noteq> b)"

text \<open>A Go \<^verbatim>\<open>error\<close> is represented by its message.\<close>

type_synonym error = string

text \<open>
  \<^verbatim>\<open>compute.Quota\<close>, \<^verbatim>\<open>compute.Region\<close>, \<^verbatim>\<open>compute.Project\<close> and
  \<^verbatim>\<open>compute.RegionList\<close>, with the fields the program reads. The elements of the
  slices of pointers (quotas, regions, projects) are taken to be non-nil.
\<close>

record Quota =
  Metric :: string
  Limit :: float64

record Region =
  Name :: string
  Quotas :: "Quota list"

record ComputeProject =
  Quotas :: "Quota list"

record RegionList =
  Items :: "Region list"

text \<open>\<^verbatim>\<open>cloudresourcemanager.Project\<close>: the unique project id and the display name.\<close>

record Project =
  ProjectId :: string
  Name :: string

text \<open>
  \<^verbatim>\<open>type Quotas struct\<close> (lines 59-63). \<open>regionList\<close> is a pointer that
  \<^verbatim>\<open>GetQuotas\<close> sets to nil when the region query fails: \<open>None\<close>.
\<close>

record Quotas =
  projectId :: string
  project :: ComputeProject
  regionList :: "RegionList option"

text \<open>\<^verbatim>\<open>type Issue struct\<close> (lines 65-72). The zero value of \<open>region\<close> is the empty string.\<close>

record Issue =
  fromProjectId :: string
  toProjectId :: string
  region :: string
  metric :: string
  fromLimit :: float64
  toLimit :: float64

text \<open>The four flags \<^verbatim>\<open>main\<close> reads (lines 22-36); \<^verbatim>\<open>from\<close> and \<^verbatim>\<open>to\<close> are keywords here.\<close>

record flags =
  flag_from :: string
  flag_to :: string
  regexFrom :: string
  regexTo :: string

section \<open>Effects\<close>

text \<open>
  One constructor for each \<^verbatim>\<open>log.Printf\<close>, \<^verbatim>\<open>log.Fatal\<close> and \<^verbatim>\<open>log.Fatalf\<close> of the
  program, carrying the arguments of its format string in their order.
\<close>

datatype log_entry =
    ProjectFilterLog string
  | ProjectQuotasFailureLog error
  | RegionQuotasFailureLog error
  | ComputeServiceFatal error
  | FatalLog error
  | ProjectErrorFatal string error
  | MetricMissingLog string string
  | LimitDiffersLog string string float64 string string float64
  | RegionMissingLog string string
  | RegionMetricMissingLog string string string
  | RegionLimitDiffersLog string string string float64 string string string float64

text \<open>The calls the program makes to the credentials, to the two Google services and to their APIs.\<close>

datatype call =
    DefaultClientCall
  | ComputeNewServiceCall
  | ProjectsGetCall string
  | RegionsListCall string
  | CrmNewServiceCall
  | ProjectsListCall string

text \<open>
  The state of a run: what was logged, which calls were made, and the variable
  \<^verbatim>\<open>issues\<close> of \<^verbatim>\<open>main\<close> (line 171).
\<close>

record state =
  logs :: "log_entry list"
  calls :: "call list"
  issues :: "Issue list"

definition log_printf :: "log_entry \<Rightarrow> state \<Rightarrow> state" where
  "log_printf e st = st\<lparr>logs := logs st @ [e]\<rparr>"

definition record_call :: "call \<Rightarrow> state \<Rightarrow> state" where
  "record_call c st = st\<lparr>calls := calls st @ [c]\<rparr>"

definition append_issue :: "Issue \<Rightarrow> state \<Rightarrow> state" where
  "append_issue i st = st\<lparr>issues := issues st @ [i]\<rparr>"

text \<open>
  How a piece of the program ends: it returns, it panics (a run-time panic ends the
  process with exit status 2), or it calls \<^verbatim>\<open>os.Exit\<close> (\<^verbatim>\<open>log.Fatal\<close> and
  \<^verbatim>\<open>log.Fatalf\<close> print and exit with status 1).
\<close>

datatype panic =
    IndexOutOfRange nat nat
  | NilPointerDereference
  | RegexpCompilePanic string

datatype 'a res = Return 'a | Panic panic | Exit nat

text \<open>
  The libraries and services the program calls are parameters. The answer of a service
  may depend on the calls made before it. \<open>Compiles\<close> tells whether
  \<^verbatim>\<open>regexp.MustCompile\<close> returns (it panics otherwise); a compiled expression is
  represented by its pattern; \<^verbatim>\<open>FindStringSubmatch\<close> returning nil is \<open>[]\<close>;
  \<open>Sprintf\<close> is \<^verbatim>\<open>fmt.Sprintf\<close> with one string argument.
\<close>

record world =
  Compiles :: "string \<Rightarrow> bool"
  FindStringSubmatch :: "string \<Rightarrow> string \<Rightarrow> string list"
  MatchString :: "string \<Rightarrow> string \<Rightarrow> bool"
  Sprintf :: "string \<Rightarrow> string \<Rightarrow> string"
  DefaultClient :: "call list \<Rightarrow> error option"
  ComputeNewService :: "call list \<Rightarrow> error option"
  ProjectsGet :: "call list \<Rightarrow> string \<Rightarrow> error + ComputeProject"
  RegionsList :: "call list \<Rightarrow> string \<Rightarrow> error + RegionList"
  CrmNewService :: "call list \<Rightarrow> error option"
  ProjectsList :: "call list \<Rightarrow> string \<Rightarrow> error + Project list"

section \<open>\<^verbatim>\<open>GetQuotas\<close> and \<^verbatim>\<open>GetProjects\<close>\<close>

text \<open>
  \<^verbatim>\<open>GetQuotas\<close> (lines 74-117) returns \<^verbatim>\<open>(error, *Quotas)\<close>: the error of the client's
  creation with no quotas; \<^verbatim>\<open>nil, nil\<close> when the project query fails; the quotas with
  a nil region list when the region query fails. A failure to build the compute service
  is fatal inside the function.
\<close>

definition GetQuotas :: "world \<Rightarrow> string \<Rightarrow> state \<Rightarrow> (error option \<times> Quotas option) res \<times> state" where
  "GetQuotas w pid st =
     (case DefaultClient w (calls st) of
        Some err \<Rightarrow>
          (Return (Some (''Error creating Google client: '' @ err), None),
           record_call DefaultClientCall st)
      | None \<Rightarrow>
          (case ComputeNewService w (calls (record_call DefaultClientCall st)) of
             Some err \<Rightarrow>
               (Exit 1,
                log_printf (ComputeServiceFatal err)
                  (record_call ComputeNewServiceCall (record_call DefaultClientCall st)))
           | None \<Rightarrow>
               (case ProjectsGet w
                       (calls (record_call ComputeNewServiceCall (record_call DefaultClientCall st))) pid of
                  Inl err \<Rightarrow>
                    (Return (None, None),
                     log_printf (ProjectQuotasFailureLog err)
                       (record_call (ProjectsGetCall pid)
                         (record_call ComputeNewServiceCall (record_call DefaultClientCall st))))
                | Inr p \<Rightarrow>
                    (case RegionsList w
                            (calls (record_call (ProjectsGetCall pid)
                              (record_call ComputeNewServiceCall (record_call DefaultClientCall st)))) pid of
                       Inl err \<Rightarrow>
                         (Return (None, Some \<lparr>projectId = pid, project = p, regionList = None\<rparr>),
                          log_printf (RegionQuotasFailureLog err)
                            (record_call (RegionsListCall pid)
                              (record_call (ProjectsGetCall pid)
                                (record_call ComputeNewServiceCall (record_call DefaultClientCall st)))))
                     | Inr rl \<Rightarrow>
                         (Return (None, Some \<lparr>projectId = pid, project = p, regionList = Some rl\<rparr>),
                          record_call (RegionsListCall pid)
                            (record_call (ProjectsGetCall pid)
                              (record_call ComputeNewServiceCall (record_call DefaultClientCall st))))))))"

text \<open>
  \<^verbatim>\<open>GetProjects\<close> (lines 118-144) returns the projects of the first page of the
  listing, or the error of the service or of the query.
\<close>

definition GetProjects :: "world \<Rightarrow> string \<Rightarrow> state \<Rightarrow> (error + Project list) \<times> state" where
  "GetProjects w query st =
     (case CrmNewService w (calls st) of
        Some err \<Rightarrow> (Inl err, record_call CrmNewServiceCall st)
      | None \<Rightarrow>
          (case ProjectsList w (calls (record_call CrmNewServiceCall st))
                  (''lifecycleState:ACTIVE'' @ '' '' @ query) of
             Inl err \<Rightarrow>
               (Inl err,
                record_call (ProjectsListCall (''lifecycleState:ACTIVE'' @ '' '' @ query))
                  (log_printf (ProjectFilterLog (''lifecycleState:ACTIVE'' @ '' '' @ query))
                    (record_call CrmNewServiceCall st)))
           | Inr projects \<Rightarrow>
               (Inr projects,
                record_call (ProjectsListCall (''lifecycleState:ACTIVE'' @ '' '' @ query))
                  (log_printf (ProjectFilterLog (''lifecycleState:ACTIVE'' @ '' '' @ query))
                    (record_call CrmNewServiceCall st)))))"

text \<open>\<^verbatim>\<open>GetProjectIds\<close> (lines 146-152).\<close>

definition GetProjectIds :: "Project list \<Rightarrow> string list" where
  "GetProjectIds p = map ProjectId p"

section \<open>The three searches of \<^verbatim>\<open>main\<close>\<close>

text \<open>Lines 196-203: the first project of \<^verbatim>\<open>toProjects\<close> whose id the expression matches.\<close>

fun findToProject :: "world \<Rightarrow> string \<Rightarrow> Project list \<Rightarrow> Project option" where
  "findToProject w r1 [] = None"
| "findToProject w r1 (toProject # rest) =
     (if MatchString w r1 (ProjectId toProject) then Some toProject
      else findToProject w r1 rest)"

text \<open>Lines 218-223 and 270-275: the first quota of the list with the given metric.\<close>

fun findQuota :: "string \<Rightarrow> Quota list \<Rightarrow> Quota option" where
  "findQuota m [] = None"
| "findQuota m (q # rest) = (if Metric q = m then Some q else findQuota m rest)"

text \<open>Lines 249-255: the first region of the list with the given name.\<close>

fun findRegion :: "string \<Rightarrow> Region list \<Rightarrow> Region option" where
  "findRegion n [] = None"
| "findRegion n (toRegion # rest) =
     (if Region.Name toRegion = n then Some toRegion else findRegion n rest)"

section \<open>The comparison of two quota snapshots\<close>

text \<open>Lines 213-242: the body of the loop over the quotas of the from project.\<close>

definition compareProjectQuota :: "Project \<Rightarrow> Project \<Rightarrow> Quota list \<Rightarrow> Quota \<Rightarrow> state \<Rightarrow> state" where
  "compareProjectQuota fromProject toProjectFound toQuotas fromProjectQuota st =
     (case findQuota (Metric fromProjectQuota) toQuotas of
        None \<Rightarrow>
          log_printf (MetricMissingLog (ProjectId fromProject) (Metric fromProjectQuota)) st
      | Some toProjectQuota \<Rightarrow>
          (if float_ne (Limit toProjectQuota) (Limit fromProjectQuota) then
             append_issue
               \<lparr>fromProjectId = Project.Name fromProject,
                toProjectId = Project.Name toProjectFound,
                region = [],
                metric = Metric fromProjectQuota,
                fromLimit = Limit fromProjectQuota,
                toLimit = Limit toProjectQuota\<rparr>
               (log_printf
                 (LimitDiffersLog (ProjectId fromProject) (Metric fromProjectQuota)
                   (Limit fromProjectQuota) (ProjectId toProjectFound) (Metric toProjectQuota)
                   (Limit toProjectQuota)) st)
           else st))"

text \<open>
  Lines 212-243: the loop over \<^verbatim>\<open>fromProjectQuotas.project.Quotas\<close>. Each iteration
  evaluates \<^verbatim>\<open>toProjectQuotas.project.Quotas\<close>, which panics when \<^verbatim>\<open>toProjectQuotas\<close>
  is nil.
\<close>

fun compareProjectQuotas ::
  "Project \<Rightarrow> Project \<Rightarrow> Quotas option \<Rightarrow> Quota list \<Rightarrow> state \<Rightarrow> unit res \<times> state" where
  "compareProjectQuotas fromProject toProjectFound toProjectQuotas [] st = (Return (), st)"
| "compareProjectQuotas fromProject toProjectFound toProjectQuotas (fromProjectQuota # rest) st =
     (case toProjectQuotas of
        None \<Rightarrow> (Panic NilPointerDereference, st)
      | Some tq \<Rightarrow>
          compareProjectQuotas fromProject toProjectFound toProjectQuotas rest
            (compareProjectQuota fromProject toProjectFound
              (ComputeProject.Quotas (project tq)) fromProjectQuota st))"

text \<open>Lines 265-295: the body of the loop over the quotas of a region of the from project.\<close>

definition compareRegionQuota :: "Project \<Rightarrow> Project \<Rightarrow> Region \<Rightarrow> Region \<Rightarrow> Quota \<Rightarrow> state \<Rightarrow> state" where
  "compareRegionQuota fromProject toProjectFound fromRegion toRegionFound fromRegionQuota st =
     (case findQuota (Metric fromRegionQuota) (Region.Quotas toRegionFound) of
        None \<Rightarrow>
          log_printf
            (RegionMetricMissingLog (ProjectId fromProject) (Region.Name toRegionFound)
              (Metric fromRegionQuota)) st
      | Some toRegionQuotaFound \<Rightarrow>
          (if float_ne (Limit toRegionQuotaFound) (Limit fromRegionQuota) then
             append_issue
               \<lparr>fromProjectId = Project.Name fromProject,
                toProjectId = Project.Name toProjectFound,
                region = Region.Name fromRegion,
                metric = Metric fromRegionQuota,
                fromLimit = Limit fromRegionQuota,
                toLimit = Limit toRegionQuotaFound\<rparr>
               (log_printf
                 (RegionLimitDiffersLog (ProjectId fromProject) (Region.Name fromRegion)
                   (Metric fromRegionQuota) (Limit fromRegionQuota) (ProjectId toProjectFound)
                   (Region.Name toRegionFound) (Metric toRegionQuotaFound)
                   (Limit toRegionQuotaFound)) st)
           else st))"

text \<open>Lines 264-296: the loop over \<^verbatim>\<open>fromRegion.Quotas\<close>.\<close>

fun compareRegionQuotas ::
  "Project \<Rightarrow> Project \<Rightarrow> Region \<Rightarrow> Region \<Rightarrow> Quota list \<Rightarrow> state \<Rightarrow> state" where
  "compareRegionQuotas fromProject toProjectFound fromRegion toRegionFound [] st = st"
| "compareRegionQuotas fromProject toProjectFound fromRegion toRegionFound (fromRegionQuota # rest) st =
     compareRegionQuotas fromProject toProjectFound fromRegion toRegionFound rest
       (compareRegionQuota fromProject toProjectFound fromRegion toRegionFound fromRegionQuota st)"

text \<open>
  Lines 247-296: the body of the loop over the regions of the from project, once the
  range expression \<^verbatim>\<open>toProjectQuotas.regionList.Items\<close> of its inner loop has a value.
\<close>

definition compareRegion :: "Project \<Rightarrow> Project \<Rightarrow> Region list \<Rightarrow> Region \<Rightarrow> state \<Rightarrow> state" where
  "compareRegion fromProject toProjectFound toItems fromRegion st =
     (case findRegion (Region.Name fromRegion) toItems of
        None \<Rightarrow>
          log_printf (RegionMissingLog (ProjectId fromProject) (Region.Name fromRegion)) st
      | Some toRegionFound \<Rightarrow>
          compareRegionQuotas fromProject toProjectFound fromRegion toRegionFound
            (Region.Quotas fromRegion) st)"

text \<open>
  Lines 246-297: the loop over \<^verbatim>\<open>fromProjectQuotas.regionList.Items\<close>. Each iteration
  evaluates \<^verbatim>\<open>toProjectQuotas.regionList.Items\<close>, which panics when \<^verbatim>\<open>toProjectQuotas\<close>
  or its region list is nil.
\<close>

fun compareRegions ::
  "Project \<Rightarrow> Project \<Rightarrow> Quotas option \<Rightarrow> Region list \<Rightarrow> state \<Rightarrow> unit res \<times> state" where
  "compareRegions fromProject toProjectFound toProjectQuotas [] st = (Return (), st)"
| "compareRegions fromProject toProjectFound toProjectQuotas (fromRegion # rest) st =
     (case toProjectQuotas of
        None \<Rightarrow> (Panic NilPointerDereference, st)
      | Some tq \<Rightarrow>
          (case regionList tq of
             None \<Rightarrow> (Panic NilPointerDereference, st)
           | Some trl \<Rightarrow>
               compareRegions fromProject toProjectFound toProjectQuotas rest
                 (compareRegion fromProject toProjectFound (Items trl) fromRegion st)))"

text \<open>
  Lines 212-297, the comparison the specification calls \<open>diff\<close>: the project-level
  pass, then the region-level pass. The range expressions
  \<^verbatim>\<open>fromProjectQuotas.project.Quotas\<close> and \<^verbatim>\<open>fromProjectQuotas.regionList.Items\<close>
  panic when \<^verbatim>\<open>fromProjectQuotas\<close>, respectively its region list, is nil.
\<close>

definition diff ::
  "Project \<Rightarrow> Project \<Rightarrow> Quotas option \<Rightarrow> Quotas option \<Rightarrow> state \<Rightarrow> unit res \<times> state" where
  "diff fromProject toProjectFound fromProjectQuotas toProjectQuotas st =
     (case fromProjectQuotas of
        None \<Rightarrow> (Panic NilPointerDereference, st)
      | Some fq \<Rightarrow>
          (case compareProjectQuotas fromProject toProjectFound toProjectQuotas
                  (ComputeProject.Quotas (project fq)) st of
             (Return u, st1) \<Rightarrow>
               (case regionList fq of
                  None \<Rightarrow> (Panic NilPointerDereference, st1)
                | Some frl \<Rightarrow>
                    compareRegions fromProject toProjectFound toProjectQuotas (Items frl) st1)
           | (Panic p, st1) \<Rightarrow> (Panic p, st1)
           | (Exit c, st1) \<Rightarrow> (Exit c, st1)))"

section \<open>\<^verbatim>\<open>main\<close>\<close>

text \<open>
  Lines 183-298: the body of the loop over \<^verbatim>\<open>fromProjects\<close>. The index expression
  \<^verbatim>\<open>projectNameMatch[1]\<close> panics when the slice has fewer than two elements. The
  quotas of the from project are fetched (line 191) before the to projects are searched.
\<close>

definition compareFromProject ::
  "flags \<Rightarrow> world \<Rightarrow> Project list \<Rightarrow> Project \<Rightarrow> state \<Rightarrow> unit res \<times> state" where
  "compareFromProject fl w toProjects fromProject st =
     (if \<not> Compiles w (regexFrom fl) then (Panic (RegexpCompilePanic (regexFrom fl)), st)
      else if length (FindStringSubmatch w (regexFrom fl) (ProjectId fromProject)) \<le> 1 then
        (Panic (IndexOutOfRange 1
           (length (FindStringSubmatch w (regexFrom fl) (ProjectId fromProject)))), st)
      else if \<not> Compiles w
                (Sprintf w (regexTo fl)
                  (FindStringSubmatch w (regexFrom fl) (ProjectId fromProject) ! 1)) then
        (Panic (RegexpCompilePanic
           (Sprintf w (regexTo fl)
             (FindStringSubmatch w (regexFrom fl) (ProjectId fromProject) ! 1))), st)
      else
        (case GetQuotas w (ProjectId fromProject) st of
           (Panic p, st1) \<Rightarrow> (Panic p, st1)
         | (Exit c, st1) \<Rightarrow> (Exit c, st1)
         | (Return (Some err, fromProjectQuotas), st1) \<Rightarrow>
             (Exit 1, log_printf (ProjectErrorFatal (ProjectId fromProject) err) st1)
         | (Return (None, fromProjectQuotas), st1) \<Rightarrow>
             (case findToProject w
                     (Sprintf w (regexTo fl)
                       (FindStringSubmatch w (regexFrom fl) (ProjectId fromProject) ! 1))
                     toProjects of
                None \<Rightarrow> (Return (), st1)
              | Some toProjectFound \<Rightarrow>
                  (case GetQuotas w (ProjectId toProjectFound) st1 of
                     (Panic p, st2) \<Rightarrow> (Panic p, st2)
                   | (Exit c, st2) \<Rightarrow> (Exit c, st2)
                   | (Return (Some err, toProjectQuotas), st2) \<Rightarrow>
                       (Exit 1, log_printf (ProjectErrorFatal (ProjectId fromProject) err) st2)
                   | (Return (None, toProjectQuotas), st2) \<Rightarrow>
                       diff fromProject toProjectFound fromProjectQuotas toProjectQuotas st2))))"

text \<open>Line 182: the loop over \<^verbatim>\<open>fromProjects\<close>; a panic or an exit ends it.\<close>

fun forEachFromProject ::
  "flags \<Rightarrow> world \<Rightarrow> Project list \<Rightarrow> Project list \<Rightarrow> state \<Rightarrow> unit res \<times> state" where
  "forEachFromProject fl w toProjects [] st = (Return (), st)"
| "forEachFromProject fl w toProjects (fromProject # rest) st =
     (case compareFromProject fl w toProjects fromProject st of
        (Return u, st1) \<Rightarrow> forEachFromProject fl w toProjects rest st1
      | (Panic p, st1) \<Rightarrow> (Panic p, st1)
      | (Exit c, st1) \<Rightarrow> (Exit c, st1))"

text \<open>\<^verbatim>\<open>main\<close> (lines 165-300), after the flags are parsed.\<close>

definition main :: "flags \<Rightarrow> world \<Rightarrow> unit res \<times> state" where
  "main fl w =
     (case GetProjects w (flag_from fl) \<lparr>logs = [], calls = [], issues = []\<rparr> of
        (Inl err, st1) \<Rightarrow> (Exit 1, log_printf (FatalLog err) st1)
      | (Inr fromProjects, st1) \<Rightarrow>
          (case GetProjects w (flag_to fl) st1 of
             (Inl err, st2) \<Rightarrow> (Exit 1, log_printf (FatalLog err) st2)
           | (Inr toProjects, st2) \<Rightarrow> forEachFromProject fl w toProjects fromProjects st2))"

section \<open>A concrete run\<close>

text \<open>
  Two environments whose project ids follow the naming convention of the default
  flags, written here without the class \<^verbatim>\<open>\w\<close>. The answers of the \<^verbatim>\<open>regexp\<close> and
  \<^verbatim>\<open>fmt\<close> packages are tabulated for the patterns and the ids of this run: the source
  pattern captures \<^verbatim>\<open>billing\<close> and \<^verbatim>\<open>web\<close>, does not match \<^verbatim>\<open>legacy-tools\<close>, and the
  target pattern of a name matches the staging id with that name only.
\<close>

definition demo_flags :: flags where
  "demo_flags =
     \<lparr>flag_from = ''labels.environment=dev'',
      flag_to = ''labels.environment=staging'',
      regexFrom = ''prj-[a-z]+-(.*)-[a-zA-Z0-9]{4}$'',
      regexTo = ''prj-[a-z]+-%s-[a-zA-Z0-9]{4}$''\<rparr>"

definition demo_FindStringSubmatch :: "string \<Rightarrow> string \<Rightarrow> string list" where
  "demo_FindStringSubmatch pat s =
     (if pat = ''prj-[a-z]+-(.*)-[a-zA-Z0-9]{4}$'' \<and> s = ''prj-dev-billing-ab12''
        then [''prj-dev-billing-ab12'', ''billing'']
      else if pat = ''prj-[a-z]+-(.*)-[a-zA-Z0-9]{4}$'' \<and> s = ''prj-dev-web-ef56''
        then [''prj-dev-web-ef56'', ''web'']
      else [])"

definition demo_Sprintf :: "string \<Rightarrow> string \<Rightarrow> string" where
  "demo_Sprintf fmt a =
     (if fmt = ''prj-[a-z]+-%s-[a-zA-Z0-9]{4}$'' then ''prj-[a-z]+-'' @ a @ ''-[a-zA-Z0-9]{4}$''
      else fmt)"

definition demo_MatchString :: "string \<Rightarrow> string \<Rightarrow> bool" where
  "demo_MatchString pat s =
     (if pat = ''prj-[a-z]+-billing-[a-zA-Z0-9]{4}$'' then s = ''prj-staging-billing-cd34''
      else if pat = ''prj-[a-z]+-web-[a-zA-Z0-9]{4}$'' then s = ''prj-staging-web-gh78''
      else False)"

definition dev_billing :: Project where
  "dev_billing = \<lparr>ProjectId = ''prj-dev-billing-ab12'', Name = ''Billing (dev)''\<rparr>"

definition staging_billing :: Project where
  "staging_billing = \<lparr>ProjectId = ''prj-staging-billing-cd34'', Name = ''Billing (staging)''\<rparr>"

definition dev_web :: Project where
  "dev_web = \<lparr>ProjectId = ''prj-dev-web-ef56'', Name = ''Web (dev)''\<rparr>"

definition staging_web :: Project where
  "staging_web = \<lparr>ProjectId = ''prj-staging-web-gh78'', Name = ''Web (staging)''\<rparr>"

definition legacy_tools :: Project where
  "legacy_tools = \<lparr>ProjectId = ''legacy-tools'', Name = ''Legacy tools''\<rparr>"

text \<open>
  A world in which the credentials and both services are available, the two listings
  answer with the given projects, and the quota queries answer as the two given
  functions of the project id say.
\<close>

definition demo_world ::
  "Project list \<Rightarrow> Project list \<Rightarrow> (string \<Rightarrow> error + ComputeProject) \<Rightarrow>
   (string \<Rightarrow> error + RegionList) \<Rightarrow> world" where
  "demo_world fromProjects toProjects get list_regions =
     \<lparr>Compiles = (\<lambda>p. True),
      FindStringSubmatch = demo_FindStringSubmatch,
      MatchString = demo_MatchString,
      Sprintf = demo_Sprintf,
      DefaultClient = (\<lambda>cs. None),
      ComputeNewService = (\<lambda>cs. None),
      ProjectsGet = (\<lambda>cs. get),
      RegionsList = (\<lambda>cs. list_regions),
      CrmNewService = (\<lambda>cs. None),
      ProjectsList =
        (\<lambda>cs f. if f = ''lifecycleState:ACTIVE labels.environment=dev'' then Inr fromProjects
                else Inr toProjects)\<rparr>"

definition cpus :: "real \<Rightarrow> ComputeProject" where
  "cpus n = \<lparr>ComputeProject.Quotas = [\<lparr>Metric = ''CPUS'', Limit = Finite n\<rparr>]\<rparr>"

definition no_regions :: "string \<Rightarrow> error + RegionList" where
  "no_regions pid = Inr \<lparr>Items = []\<rparr>"

text \<open>The state \<^verbatim>\<open>main\<close> starts from.\<close>

definition st0 :: state where
  "st0 = \<lparr>logs = [], calls = [], issues = []\<rparr>"

text \<open>The project query of the matched staging project fails; the dev project has no quotas and no regions.\<close>

definition world_to_fetch_fails :: world where
  "world_to_fetch_fails =
     demo_world [dev_billing, dev_web] [staging_billing, staging_web]
       (\<lambda>pid. if pid = ''prj-dev-billing-ab12'' then Inr \<lparr>ComputeProject.Quotas = []\<rparr>
              else if pid = ''prj-staging-billing-cd34'' then Inl ''googleapi: Error 403: Forbidden''
              else Inr (cpus 24))
       no_regions"

text \<open>A from project whose id the source pattern does not match.\<close>

definition world_unmatched_source :: world where
  "world_unmatched_source =
     demo_world [legacy_tools, dev_billing] [staging_billing] (\<lambda>pid. Inr (cpus 24)) no_regions"

text \<open>The region query of the from project fails.\<close>

definition world_region_fetch_fails :: world where
  "world_region_fetch_fails =
     demo_world [dev_billing] [staging_billing] (\<lambda>pid. Inr (cpus 24))
       (\<lambda>pid. if pid = ''prj-dev-billing-ab12'' then Inl ''googleapi: Error 503: Backend Error''
              else Inr \<lparr>Items = []\<rparr>)"

text \<open>No to project carries the name of the from project.\<close>

definition world_no_target :: world where
  "world_no_target =
     demo_world [dev_billing] [staging_web] (\<lambda>pid. Inr (cpus 24)) no_regions"

text \<open>The scenario of the specification: \<^verbatim>\<open>CPUS\<close> is 24 in dev and 32 in staging.\<close>

definition world_limits_differ :: world where
  "world_limits_differ =
     demo_world [dev_billing] [staging_billing]
       (\<lambda>pid. if pid = ''prj-dev-billing-ab12'' then Inr (cpus 24) else Inr (cpus 32))
       no_regions"

text \<open>Snapshots for the comparison alone.\<close>

definition snapshot :: "string \<Rightarrow> Quota list \<Rightarrow> Region list \<Rightarrow> Quotas" where
  "snapshot pid qs rs =
     \<lparr>projectId = pid, project = \<lparr>ComputeProject.Quotas = qs\<rparr>,
      regionList = Some \<lparr>Items = rs\<rparr>\<rparr>"

definition quota :: "string \<Rightarrow> float64 \<Rightarrow> Quota" where
  "quota m l = \<lparr>Metric = m, Limit = l\<rparr>"

definition region_of :: "string \<Rightarrow> Quota list \<Rightarrow> Region" where
  "region_of n qs = \<lparr>Region.Name = n, Region.Quotas = qs\<rparr>"

text \<open>Two snapshots with a differing limit, a metric missing on the to side and a metric missing in a region of the to side; the state their comparison ends in.\<close>

definition dev_snapshot :: Quotas where
  "dev_snapshot =
     snapshot ''prj-dev-billing-ab12''
       [quota ''CPUS'' (Finite 24), quota ''GPUS_ALL_REGIONS'' (Finite 1)]
       [region_of ''us-east1'' [quota ''DISKS_TOTAL_GB'' (Finite 500), quota ''SSD_TOTAL_GB'' (Finite 100)]]"

definition staging_snapshot :: Quotas where
  "staging_snapshot =
     snapshot ''prj-staging-billing-cd34''
       [quota ''CPUS'' (Finite 32)]
       [region_of ''us-east1'' [quota ''DISKS_TOTAL_GB'' (Finite 500)]]"

definition compared_state :: state where
  "compared_state =
     \<lparr>logs =
        [LimitDiffersLog ''prj-dev-billing-ab12'' ''CPUS'' (Finite 24)
           ''prj-staging-billing-cd34'' ''CPUS'' (Finite 32),
         MetricMissingLog ''prj-dev-billing-ab12'' ''GPUS_ALL_REGIONS'',
         RegionMetricMissingLog ''prj-dev-billing-ab12'' ''us-east1'' ''SSD_TOTAL_GB''],
      calls = [],
      issues =
        [\<lparr>fromProjectId = ''Billing (dev)'', toProjectId = ''Billing (staging)'', region = [],
          metric = ''CPUS'', fromLimit = Finite 24, toLimit = Finite 32\<rparr>]\<rparr>"

text \<open>A snapshot; the same quotas in another order; one project-level limit changed; one region-level limit changed.\<close>

definition snapshot_a :: Quotas where
  "snapshot_a =
     snapshot ''prj-dev-billing-ab12''
       [quota ''CPUS'' (Finite 24), quota ''GPUS_ALL_REGIONS'' (Finite 1)]
       [region_of ''us-east1'' [quota ''DISKS_TOTAL_GB'' (Finite 500), quota ''SSD_TOTAL_GB'' (Finite 100)],
        region_of ''europe-west1'' [quota ''DISKS_TOTAL_GB'' (Finite 200)]]"

definition snapshot_a_reordered :: Quotas where
  "snapshot_a_reordered =
     snapshot ''prj-staging-billing-cd34''
       [quota ''GPUS_ALL_REGIONS'' (Finite 1), quota ''CPUS'' (Finite 24)]
       [region_of ''europe-west1'' [quota ''DISKS_TOTAL_GB'' (Finite 200)],
        region_of ''us-east1'' [quota ''SSD_TOTAL_GB'' (Finite 100), quota ''DISKS_TOTAL_GB'' (Finite 500)]]"

definition snapshot_more_cpus :: Quotas where
  "snapshot_more_cpus =
     snapshot ''prj-staging-billing-cd34''
       [quota ''GPUS_ALL_REGIONS'' (Finite 1), quota ''CPUS'' (Finite 32)]
       [region_of ''europe-west1'' [quota ''DISKS_TOTAL_GB'' (Finite 200)],
        region_of ''us-east1'' [quota ''SSD_TOTAL_GB'' (Finite 100), quota ''DISKS_TOTAL_GB'' (Finite 500)]]"

definition snapshot_more_disks :: Quotas where
  "snapshot_more_disks =
     snapshot ''prj-staging-billing-cd34''
       [quota ''GPUS_ALL_REGIONS'' (Finite 1), quota ''CPUS'' (Finite 24)]
       [region_of ''europe-west1'' [quota ''DISKS_TOTAL_GB'' (Finite 200)],
        region_of ''us-east1'' [quota ''SSD_TOTAL_GB'' (Finite 100), quota ''DISKS_TOTAL_GB'' (Finite 750)]]"

text \<open>A to side on which the metric \<^verbatim>\<open>CPUS\<close> and the region \<^verbatim>\<open>us-east1\<close> occur twice.\<close>

definition duplicates_from :: Quotas where
  "duplicates_from =
     snapshot ''prj-dev-billing-ab12''
       [quota ''CPUS'' (Finite 24)]
       [region_of ''us-east1'' [quota ''CPUS'' (Finite 24)]]"

definition duplicates_to :: Quotas where
  "duplicates_to =
     snapshot ''prj-staging-billing-cd34''
       [quota ''DISKS_TOTAL_GB'' (Finite 5), quota ''CPUS'' (Finite 32), quota ''CPUS'' (Finite 24)]
       [region_of ''europe-west1'' [],
        region_of ''us-east1''
          [quota ''DISKS_TOTAL_GB'' (Finite 5), quota ''CPUS'' (Finite 32), quota ''CPUS'' (Finite 24)],
        region_of ''us-east1'' [quota ''CPUS'' (Finite 24)]]"

section \<open>The effects, and the searches as first occurrences\<close>

lemma logs_log_printf [simp]: "logs (log_printf e st) = logs st @ [e]"
  and calls_log_printf [simp]: "calls (log_printf e st) = calls st"
  and issues_log_printf [simp]: "issues (log_printf e st) = issues st"
  by (simp_all add: log_printf_def)

lemma logs_record_call [simp]: "logs (record_call c st) = logs st"
  and calls_record_call [simp]: "calls (record_call c st) = calls st @ [c]"
  and issues_record_call [simp]: "issues (record_call c st) = issues st"
  by (simp_all add: record_call_def)

lemma logs_append_issue [simp]: "logs (append_issue i st) = logs st"
  and calls_append_issue [simp]: "calls (append_issue i st) = calls st"
  and issues_append_issue [simp]: "issues (append_issue i st) = issues st @ [i]"
  by (simp_all add: append_issue_def)

lemma findQuota_None_iff: "findQuota m qs = None \<longleftrightarrow> m \<notin> Metric ` set qs"
  by (induction qs) auto

lemma findQuota_SomeD: "findQuota m qs = Some t \<Longrightarrow> t \<in> set qs \<and> Metric t = m"
  by (induction qs) (auto split: if_splits)

lemma findQuota_first:
  "\<forall>x\<in>set pre. Metric x \<noteq> m \<Longrightarrow> Metric t = m \<Longrightarrow> findQuota m (pre @ t # post) = Some t"
  by (induction pre) auto

lemma findQuota_distinct:
  "distinct (map Metric qs) \<Longrightarrow> t \<in> set qs \<Longrightarrow> findQuota (Metric t) qs = Some t"
  by (induction qs) (auto simp: rev_image_eqI)

lemma findRegion_None_iff: "findRegion n rs = None \<longleftrightarrow> n \<notin> Region.Name ` set rs"
  by (induction rs) auto

lemma findRegion_SomeD: "findRegion n rs = Some t \<Longrightarrow> t \<in> set rs \<and> Region.Name t = n"
  by (induction rs) (auto split: if_splits)

lemma findRegion_first:
  "\<forall>x\<in>set pre. Region.Name x \<noteq> n \<Longrightarrow> Region.Name t = n \<Longrightarrow> findRegion n (pre @ t # post) = Some t"
  by (induction pre) auto

lemma findRegion_distinct:
  "distinct (map Region.Name rs) \<Longrightarrow> t \<in> set rs \<Longrightarrow> findRegion (Region.Name t) rs = Some t"
  by (induction rs) (auto simp: rev_image_eqI)

lemma findToProject_None_iff:
  "findToProject w r1 ps = None \<longleftrightarrow> (\<forall>p\<in>set ps. \<not> MatchString w r1 (ProjectId p))"
  by (induction ps) auto

lemma findToProject_Some_iff:
  "findToProject w r1 ps = Some p \<longleftrightarrow>
     (\<exists>pre post. ps = pre @ p # post \<and> MatchString w r1 (ProjectId p)
        \<and> (\<forall>x\<in>set pre. \<not> MatchString w r1 (ProjectId x)))"
proof (induction ps)
  case Nil
  then show ?case by simp
next
  case (Cons a ps)
  show ?case
  proof (cases "MatchString w r1 (ProjectId a)")
    case True
    have "(\<exists>pre post. a # ps = pre @ p # post \<and> MatchString w r1 (ProjectId p)
        \<and> (\<forall>x\<in>set pre. \<not> MatchString w r1 (ProjectId x))) \<longleftrightarrow> a = p"
    proof
      assume "\<exists>pre post. a # ps = pre @ p # post \<and> MatchString w r1 (ProjectId p)
        \<and> (\<forall>x\<in>set pre. \<not> MatchString w r1 (ProjectId x))"
      then obtain pre post where e: "a # ps = pre @ p # post"
        and n: "\<forall>x\<in>set pre. \<not> MatchString w r1 (ProjectId x)" by blast
      show "a = p"
      proof (cases pre)
        case Nil
        with e show ?thesis by simp
      next
        case (Cons b pre')
        with e have "b = a" by simp
        with Cons n True show ?thesis by simp
      qed
    next
      assume "a = p"
      with True have "a # ps = [] @ p # ps \<and> MatchString w r1 (ProjectId p)
        \<and> (\<forall>x\<in>set []. \<not> MatchString w r1 (ProjectId x))" by simp
      then show "\<exists>pre post. a # ps = pre @ p # post \<and> MatchString w r1 (ProjectId p)
        \<and> (\<forall>x\<in>set pre. \<not> MatchString w r1 (ProjectId x))" by blast
    qed
    with True show ?thesis by auto
  next
    case False
    have "(\<exists>pre post. a # ps = pre @ p # post \<and> MatchString w r1 (ProjectId p)
        \<and> (\<forall>x\<in>set pre. \<not> MatchString w r1 (ProjectId x))) \<longleftrightarrow>
          (\<exists>pre post. ps = pre @ p # post \<and> MatchString w r1 (ProjectId p)
        \<and> (\<forall>x\<in>set pre. \<not> MatchString w r1 (ProjectId x)))" (is "?L \<longleftrightarrow> ?R")
    proof
      assume ?L
      then obtain pre post where e: "a # ps = pre @ p # post"
        and m: "MatchString w r1 (ProjectId p)"
        and n: "\<forall>x\<in>set pre. \<not> MatchString w r1 (ProjectId x)" by blast
      show ?R
      proof (cases pre)
        case Nil
        with e m False show ?thesis by simp
      next
        case (Cons b pre')
        with e n m have "ps = pre' @ p # post \<and> MatchString w r1 (ProjectId p)
           \<and> (\<forall>x\<in>set pre'. \<not> MatchString w r1 (ProjectId x))" by simp
        then show ?thesis by blast
      qed
    next
      assume ?R
      then obtain pre post where e: "ps = pre @ p # post"
        and m: "MatchString w r1 (ProjectId p)"
        and n: "\<forall>x\<in>set pre. \<not> MatchString w r1 (ProjectId x)" by blast
      with False have "a # ps = (a # pre) @ p # post \<and> MatchString w r1 (ProjectId p)
           \<and> (\<forall>x\<in>set (a # pre). \<not> MatchString w r1 (ProjectId x))" by simp
      then show ?L by blast
    qed
    with False Cons.IH show ?thesis by simp
  qed
qed

section \<open>The two passes as loops that only append\<close>

lemma compareProjectQuotas_Some:
  "compareProjectQuotas fp tp (Some tq) xs st =
     (Return (), foldl (\<lambda>s q. compareProjectQuota fp tp (ComputeProject.Quotas (project tq)) q s) st xs)"
  by (induction xs arbitrary: st) auto

lemma compareRegionQuotas_foldl:
  "compareRegionQuotas fp tp fr tr xs st = foldl (\<lambda>s q. compareRegionQuota fp tp fr tr q s) st xs"
  by (induction xs arbitrary: st) auto

lemma compareRegions_Some:
  "regionList tq = Some trl \<Longrightarrow>
   compareRegions fp tp (Some tq) xs st =
     (Return (), foldl (\<lambda>s fr. compareRegion fp tp (Items trl) fr s) st xs)"
  by (induction xs arbitrary: st) auto

lemma compareRegions_no_list:
  "regionList tq = None \<Longrightarrow>
   compareRegions fp tp (Some tq) xs st =
     (if xs = [] then (Return (), st) else (Panic NilPointerDereference, st))"
  by (cases xs) auto

lemma compareProjectQuota_missing:
  "findQuota (Metric q) toQs = None \<Longrightarrow>
   compareProjectQuota fp tp toQs q st = log_printf (MetricMissingLog (ProjectId fp) (Metric q)) st"
  by (simp add: compareProjectQuota_def)

lemma compareProjectQuota_equal:
  "findQuota (Metric q) toQs = Some t \<Longrightarrow> \<not> float_ne (Limit t) (Limit q) \<Longrightarrow>
   compareProjectQuota fp tp toQs q st = st"
  by (simp add: compareProjectQuota_def)

lemma compareProjectQuota_differs:
  "findQuota (Metric q) toQs = Some t \<Longrightarrow> float_ne (Limit t) (Limit q) \<Longrightarrow>
   compareProjectQuota fp tp toQs q st =
     append_issue
       \<lparr>fromProjectId = Project.Name fp, toProjectId = Project.Name tp, region = [],
        metric = Metric q, fromLimit = Limit q, toLimit = Limit t\<rparr>
       (log_printf
         (LimitDiffersLog (ProjectId fp) (Metric q) (Limit q) (ProjectId tp) (Metric t) (Limit t)) st)"
  by (simp add: compareProjectQuota_def)

lemma compareRegionQuota_missing:
  "findQuota (Metric q) (Region.Quotas tr) = None \<Longrightarrow>
   compareRegionQuota fp tp fr tr q st =
     log_printf (RegionMetricMissingLog (ProjectId fp) (Region.Name tr) (Metric q)) st"
  by (simp add: compareRegionQuota_def)

lemma compareRegionQuota_equal:
  "findQuota (Metric q) (Region.Quotas tr) = Some t \<Longrightarrow> \<not> float_ne (Limit t) (Limit q) \<Longrightarrow>
   compareRegionQuota fp tp fr tr q st = st"
  by (simp add: compareRegionQuota_def)

lemma compareRegionQuota_differs:
  "findQuota (Metric q) (Region.Quotas tr) = Some t \<Longrightarrow> float_ne (Limit t) (Limit q) \<Longrightarrow>
   compareRegionQuota fp tp fr tr q st =
     append_issue
       \<lparr>fromProjectId = Project.Name fp, toProjectId = Project.Name tp,
        region = Region.Name fr, metric = Metric q, fromLimit = Limit q, toLimit = Limit t\<rparr>
       (log_printf
         (RegionLimitDiffersLog (ProjectId fp) (Region.Name fr) (Metric q) (Limit q)
           (ProjectId tp) (Region.Name tr) (Metric t) (Limit t)) st)"
  by (simp add: compareRegionQuota_def)

text \<open>Loops whose body only appends.\<close>

lemma foldl_unchanged:
  "(\<And>s x. x \<in> set xs \<Longrightarrow> f s x = s) \<Longrightarrow> foldl f st xs = st"
  by (induction xs arbitrary: st) auto

lemma foldl_issues:
  assumes "\<And>s x. x \<in> set xs \<Longrightarrow> \<exists>P. issues (f s x) = issues s @ P \<and> (\<forall>i\<in>set P. J x i)"
  shows "\<exists>P. issues (foldl f st xs) = issues st @ P \<and> (\<forall>i\<in>set P. \<exists>x\<in>set xs. J x i)"
  using assms
proof (induction xs arbitrary: st)
  case Nil
  then show ?case by simp
next
  case (Cons a xs)
  from Cons.prems [of a st] obtain P1 where
    p1: "issues (f st a) = issues st @ P1" "\<forall>i\<in>set P1. J a i" by auto
  from Cons.IH [of "f st a"] Cons.prems obtain P2 where
    p2: "issues (foldl f (f st a) xs) = issues (f st a) @ P2" "\<forall>i\<in>set P2. \<exists>x\<in>set xs. J x i"
    by (metis list.set_intros(2))
  from p1 p2 have "issues (foldl f st (a # xs)) = issues st @ (P1 @ P2)
     \<and> (\<forall>i\<in>set (P1 @ P2). \<exists>x\<in>set (a # xs). J x i)" by auto
  then show ?case by blast
qed

lemma foldl_logs_mono:
  "(\<And>s x. set (logs s) \<subseteq> set (logs (f s x))) \<Longrightarrow> set (logs st) \<subseteq> set (logs (foldl f st xs))"
proof (induction xs arbitrary: st)
  case Nil
  then show ?case by simp
next
  case (Cons a xs)
  have "set (logs st) \<subseteq> set (logs (f st a))" by (rule Cons.prems)
  also have "\<dots> \<subseteq> set (logs (foldl f (f st a) xs))" by (rule Cons.IH) (rule Cons.prems)
  finally show ?case by simp
qed

lemma foldl_notice:
  assumes mono: "\<And>s x. set (logs s) \<subseteq> set (logs (f s x))"
    and step: "\<And>s. e \<in> set (logs (f s x))"
    and mem: "x \<in> set xs"
  shows "e \<in> set (logs (foldl f st xs))"
  using mem
proof (induction xs arbitrary: st)
  case Nil
  then show ?case by simp
next
  case (Cons a xs)
  show ?case
  proof (cases "x = a")
    case True
    have "e \<in> set (logs (f st a))" using step True by simp
    moreover have "set (logs (f st a)) \<subseteq> set (logs (foldl f (f st a) xs))"
      by (rule foldl_logs_mono) (rule mono)
    ultimately show ?thesis by auto
  next
    case False
    with Cons.prems have "x \<in> set xs" by simp
    then show ?thesis using Cons.IH by simp
  qed
qed

lemma compareProjectQuota_issues:
  "\<exists>P. issues (compareProjectQuota fp tp toQs q s) = issues s @ P \<and>
     (\<forall>i\<in>set P. region i = [] \<and> metric i = Metric q \<and> metric i \<in> Metric ` set toQs)"
proof (cases "findQuota (Metric q) toQs")
  case None
  then show ?thesis by (simp add: compareProjectQuota_missing)
next
  case (Some t)
  then have t: "Metric q \<in> Metric ` set toQs"
    using findQuota_None_iff [of "Metric q" toQs] by simp
  show ?thesis
  proof (cases "float_ne (Limit t) (Limit q)")
    case True
    with Some t show ?thesis by (simp add: compareProjectQuota_differs)
  next
    case False
    with Some show ?thesis by (simp add: compareProjectQuota_equal)
  qed
qed

lemma compareProjectQuota_logs_mono:
  "set (logs s) \<subseteq> set (logs (compareProjectQuota fp tp toQs q s))"
  by (auto simp: compareProjectQuota_def split: option.splits)

lemma compareProjectQuota_notice:
  "Metric q \<notin> Metric ` set toQs \<Longrightarrow>
   MetricMissingLog (ProjectId fp) (Metric q) \<in> set (logs (compareProjectQuota fp tp toQs q s))"
  by (simp add: compareProjectQuota_missing findQuota_None_iff)

lemma compareRegionQuota_issues:
  "\<exists>P. issues (compareRegionQuota fp tp fr tr q s) = issues s @ P \<and>
     (\<forall>i\<in>set P. region i = Region.Name fr \<and> metric i = Metric q
        \<and> metric i \<in> Metric ` set (Region.Quotas tr))"
proof (cases "findQuota (Metric q) (Region.Quotas tr)")
  case None
  then show ?thesis by (simp add: compareRegionQuota_missing)
next
  case (Some t)
  then have t: "Metric q \<in> Metric ` set (Region.Quotas tr)"
    using findQuota_None_iff [of "Metric q" "Region.Quotas tr"] by simp
  show ?thesis
  proof (cases "float_ne (Limit t) (Limit q)")
    case True
    with Some t show ?thesis by (simp add: compareRegionQuota_differs)
  next
    case False
    with Some show ?thesis by (simp add: compareRegionQuota_equal)
  qed
qed

lemma compareRegionQuota_logs_mono:
  "set (logs s) \<subseteq> set (logs (compareRegionQuota fp tp fr tr q s))"
  by (auto simp: compareRegionQuota_def split: option.splits)

lemma compareRegionQuota_notice:
  "Metric q \<notin> Metric ` set (Region.Quotas tr) \<Longrightarrow>
   RegionMetricMissingLog (ProjectId fp) (Region.Name tr) (Metric q)
     \<in> set (logs (compareRegionQuota fp tp fr tr q s))"
  by (simp add: compareRegionQuota_missing findQuota_None_iff)

lemma compareRegion_issues:
  "\<exists>P. issues (compareRegion fp tp toItems fr s) = issues s @ P \<and>
     (\<forall>i\<in>set P. \<exists>tr. findRegion (Region.Name fr) toItems = Some tr \<and> region i = Region.Name fr
        \<and> metric i \<in> Metric ` set (Region.Quotas fr) \<and> metric i \<in> Metric ` set (Region.Quotas tr))"
proof (cases "findRegion (Region.Name fr) toItems")
  case None
  then show ?thesis by (simp add: compareRegion_def)
next
  case (Some tr)
  have "\<exists>P. issues (foldl (\<lambda>s q. compareRegionQuota fp tp fr tr q s) s (Region.Quotas fr)) = issues s @ P \<and>
     (\<forall>i\<in>set P. \<exists>q\<in>set (Region.Quotas fr). region i = Region.Name fr \<and> metric i = Metric q
        \<and> metric i \<in> Metric ` set (Region.Quotas tr))"
    by (rule foldl_issues) (rule compareRegionQuota_issues)
  then obtain P where
    p: "issues (foldl (\<lambda>s q. compareRegionQuota fp tp fr tr q s) s (Region.Quotas fr)) = issues s @ P"
    and j: "\<forall>i\<in>set P. \<exists>q\<in>set (Region.Quotas fr). region i = Region.Name fr \<and> metric i = Metric q
        \<and> metric i \<in> Metric ` set (Region.Quotas tr)" by blast
  from j have "\<forall>i\<in>set P. region i = Region.Name fr
        \<and> metric i \<in> Metric ` set (Region.Quotas fr) \<and> metric i \<in> Metric ` set (Region.Quotas tr)"
    by force
  with p Some show ?thesis by (simp add: compareRegion_def compareRegionQuotas_foldl)
qed

lemma compareRegion_logs_mono:
  "set (logs s) \<subseteq> set (logs (compareRegion fp tp toItems fr s))"
proof (cases "findRegion (Region.Name fr) toItems")
  case None
  then show ?thesis by (auto simp: compareRegion_def)
next
  case (Some tr)
  have "set (logs s) \<subseteq> set (logs (foldl (\<lambda>s q. compareRegionQuota fp tp fr tr q s) s (Region.Quotas fr)))"
    by (rule foldl_logs_mono) (rule compareRegionQuota_logs_mono)
  with Some show ?thesis by (simp add: compareRegion_def compareRegionQuotas_foldl)
qed

lemma compareRegion_notice:
  assumes "findRegion (Region.Name fr) toItems = Some tr" and "q \<in> set (Region.Quotas fr)"
    and "Metric q \<notin> Metric ` set (Region.Quotas tr)"
  shows "RegionMetricMissingLog (ProjectId fp) (Region.Name tr) (Metric q)
     \<in> set (logs (compareRegion fp tp toItems fr s))"
proof -
  have "RegionMetricMissingLog (ProjectId fp) (Region.Name tr) (Metric q)
     \<in> set (logs (foldl (\<lambda>s q. compareRegionQuota fp tp fr tr q s) s (Region.Quotas fr)))"
    by (rule foldl_notice [where x = q])
       (rule compareRegionQuota_logs_mono, rule compareRegionQuota_notice, rule assms(3), rule assms(2))
  with assms(1) show ?thesis by (simp add: compareRegion_def compareRegionQuotas_foldl)
qed

lemma compareRegion_region_missing:
  "Region.Name fr \<notin> Region.Name ` set toItems \<Longrightarrow>
   compareRegion fp tp toItems fr s = log_printf (RegionMissingLog (ProjectId fp) (Region.Name fr)) s"
  by (simp add: compareRegion_def findRegion_None_iff [symmetric])

section \<open>Unfolding the program on concrete inputs\<close>

lemmas run_defs =
  main_def GetProjects_def GetQuotas_def compareFromProject_def diff_def
  compareProjectQuota_def compareRegionQuota_def compareRegion_def float_ne_def

lemmas demo_defs =
  demo_world_def demo_flags_def demo_FindStringSubmatch_def demo_Sprintf_def
  demo_MatchString_def dev_billing_def staging_billing_def cpus_def no_regions_def st0_def
  snapshot_def quota_def region_of_def

section \<open>The run on the concrete worlds\<close>

text \<open>
  C1 (the code departs from the claim). Claim: for a matched pair, a failure of the
  project-level quota fetch of either side aborts the whole run with a non-zero exit.
  \<^verbatim>\<open>GetQuotas\<close> answers a failed project query with \<^verbatim>\<open>nil, nil\<close> (line 101), so the
  checks of lines 193 and 208 do not see it; the run ends only if a later expression
  dereferences the nil pointer. Here the dev project has no quotas and no regions and the
  query of its matched staging project fails: the failure is logged, nothing aborts, and
  the run goes on to the next pair and returns.
\<close>

theorem to_side_fetch_failure_run_continues:
  "main demo_flags world_to_fetch_fails =
     (Return (),
      \<lparr>logs =
         [ProjectFilterLog ''lifecycleState:ACTIVE labels.environment=dev'',
          ProjectFilterLog ''lifecycleState:ACTIVE labels.environment=staging'',
          ProjectQuotasFailureLog ''googleapi: Error 403: Forbidden''],
       calls =
         [CrmNewServiceCall, ProjectsListCall ''lifecycleState:ACTIVE labels.environment=dev'',
          CrmNewServiceCall, ProjectsListCall ''lifecycleState:ACTIVE labels.environment=staging'',
          DefaultClientCall, ComputeNewServiceCall, ProjectsGetCall ''prj-dev-billing-ab12'',
          RegionsListCall ''prj-dev-billing-ab12'',
          DefaultClientCall, ComputeNewServiceCall, ProjectsGetCall ''prj-staging-billing-cd34'',
          DefaultClientCall, ComputeNewServiceCall, ProjectsGetCall ''prj-dev-web-ef56'',
          RegionsListCall ''prj-dev-web-ef56'',
          DefaultClientCall, ComputeNewServiceCall, ProjectsGetCall ''prj-staging-web-gh78'',
          RegionsListCall ''prj-staging-web-gh78''],
       issues = []\<rparr>)"
  by (simp add: world_to_fetch_fails_def dev_web_def staging_web_def run_defs demo_defs)

text \<open>
  C2 (the code departs from the claim). Claim: a from project whose id the source pattern
  does not match ends the run with an explicit fatal error that names the project.
  The first from project is \<^verbatim>\<open>legacy-tools\<close>: \<^verbatim>\<open>FindStringSubmatch\<close> returns nil and
  \<^verbatim>\<open>projectNameMatch[1]\<close> (line 186) panics with an index out of range; nothing is
  logged for the project, and the second from project is never reached.
\<close>

theorem unmatched_source_id_panics:
  "main demo_flags world_unmatched_source =
     (Panic (IndexOutOfRange 1 0),
      \<lparr>logs =
         [ProjectFilterLog ''lifecycleState:ACTIVE labels.environment=dev'',
          ProjectFilterLog ''lifecycleState:ACTIVE labels.environment=staging''],
       calls =
         [CrmNewServiceCall, ProjectsListCall ''lifecycleState:ACTIVE labels.environment=dev'',
          CrmNewServiceCall, ProjectsListCall ''lifecycleState:ACTIVE labels.environment=staging''],
       issues = []\<rparr>)"
  by (simp add: world_unmatched_source_def legacy_tools_def run_defs demo_defs)

text \<open>
  C6 (the code departs from the claim). Claim: when the region query of a project fails
  the fetch degrades to an empty region snapshot, still returns, and the run continues
  through the region-level comparison without a crash. \<^verbatim>\<open>GetQuotas\<close> does return the
  quotas with a nil region list, but line 246 then reads
  \<^verbatim>\<open>fromProjectQuotas.regionList.Items\<close> and the run panics.
\<close>

theorem region_fetch_failure_panics:
  "fst (GetQuotas world_region_fetch_fails ''prj-dev-billing-ab12'' st0) =
     Return (None, Some \<lparr>projectId = ''prj-dev-billing-ab12'', project = cpus 24, regionList = None\<rparr>)
   \<and> main demo_flags world_region_fetch_fails =
     (Panic NilPointerDereference,
      \<lparr>logs =
         [ProjectFilterLog ''lifecycleState:ACTIVE labels.environment=dev'',
          ProjectFilterLog ''lifecycleState:ACTIVE labels.environment=staging'',
          RegionQuotasFailureLog ''googleapi: Error 503: Backend Error''],
       calls =
         [CrmNewServiceCall, ProjectsListCall ''lifecycleState:ACTIVE labels.environment=dev'',
          CrmNewServiceCall, ProjectsListCall ''lifecycleState:ACTIVE labels.environment=staging'',
          DefaultClientCall, ComputeNewServiceCall, ProjectsGetCall ''prj-dev-billing-ab12'',
          RegionsListCall ''prj-dev-billing-ab12'',
          DefaultClientCall, ComputeNewServiceCall, ProjectsGetCall ''prj-staging-billing-cd34'',
          RegionsListCall ''prj-staging-billing-cd34''],
       issues = []\<rparr>)"
  by (simp add: world_region_fetch_fails_def run_defs demo_defs)

text \<open>
  C9 (the code departs from the claim). Claim: every Discrepancy carries the project ids
  of the compared pair, and a project-level one carries no region. Lines 236-237 and
  288-289 store \<^verbatim>\<open>fromProject.Name\<close> and \<^verbatim>\<open>toProjectFound.Name\<close>, the display names, in
  the fields \<open>fromProjectId\<close> and \<open>toProjectId\<close>; the log lines beside them use
  \<^verbatim>\<open>ProjectId\<close>. The region of the project-level issue is the empty string.
\<close>

theorem issue_carries_display_names:
  "issues (snd (main demo_flags world_limits_differ)) =
     [\<lparr>fromProjectId = ''Billing (dev)'', toProjectId = ''Billing (staging)'', region = [],
       metric = ''CPUS'', fromLimit = Finite 24, toLimit = Finite 32\<rparr>]
   \<and> ProjectId dev_billing = ''prj-dev-billing-ab12''
   \<and> ProjectId staging_billing = ''prj-staging-billing-cd34''"
  by (simp add: world_limits_differ_def run_defs demo_defs)

section \<open>The comparison on limits that are NaN\<close>

text \<open>
  C5, counterexample. Two snapshots with the one metric \<^verbatim>\<open>CPUS\<close> and the same limit
  NaN: \<^verbatim>\<open>!=\<close> holds between NaN and NaN (line 233), so the comparison appends an issue.
\<close>

theorem nan_limits_identical_snapshots_counterexample:
  "issues (snd (diff dev_billing staging_billing
      (Some (snapshot ''prj-dev-billing-ab12'' [quota ''CPUS'' NaN] []))
      (Some (snapshot ''prj-staging-billing-cd34'' [quota ''CPUS'' NaN] [])) st0)) =
     [\<lparr>fromProjectId = ''Billing (dev)'', toProjectId = ''Billing (staging)'', region = [],
       metric = ''CPUS'', fromLimit = NaN, toLimit = NaN\<rparr>]"
  by (simp add: run_defs demo_defs)

text \<open>
  C4, counterexample. The snapshots carry the same two metrics; the limits of \<^verbatim>\<open>CPUS\<close>
  differ and the limit of \<^verbatim>\<open>SSD_TOTAL_GB\<close> is NaN on both sides: two issues are
  appended, not one.
\<close>

theorem nan_limit_second_discrepancy_counterexample:
  "issues (snd (diff dev_billing staging_billing
      (Some (snapshot ''prj-dev-billing-ab12'' [quota ''CPUS'' (Finite 24), quota ''SSD_TOTAL_GB'' NaN] []))
      (Some (snapshot ''prj-staging-billing-cd34'' [quota ''CPUS'' (Finite 32), quota ''SSD_TOTAL_GB'' NaN] []))
      st0)) =
     [\<lparr>fromProjectId = ''Billing (dev)'', toProjectId = ''Billing (staging)'', region = [],
       metric = ''CPUS'', fromLimit = Finite 24, toLimit = Finite 32\<rparr>,
      \<lparr>fromProjectId = ''Billing (dev)'', toProjectId = ''Billing (staging)'', region = [],
       metric = ''SSD_TOTAL_GB'', fromLimit = NaN, toLimit = NaN\<rparr>]"
  by (simp add: run_defs demo_defs)

section \<open>A from project without a to project\<close>

text \<open>
  C7, counterexample. No to project matches the pattern of \<^verbatim>\<open>billing\<close>; the run
  returns, and its log holds the two lines of \<^verbatim>\<open>GetProjects\<close> only: the skipped pair
  is not logged.
\<close>

theorem no_match_no_notice_counterexample:
  "findToProject world_no_target ''prj-[a-z]+-billing-[a-zA-Z0-9]{4}$'' [staging_web] = None
   \<and> fst (main demo_flags world_no_target) = Return ()
   \<and> logs (snd (main demo_flags world_no_target)) =
       [ProjectFilterLog ''lifecycleState:ACTIVE labels.environment=dev'',
        ProjectFilterLog ''lifecycleState:ACTIVE labels.environment=staging'']"
  by (simp add: world_no_target_def staging_web_def run_defs demo_defs)

text \<open>
  C8, counterexample. No to project matches, and the run has queried the project and the
  region quotas of the from project all the same.
\<close>

theorem fetch_without_match_counterexample:
  "findToProject world_no_target ''prj-[a-z]+-billing-[a-zA-Z0-9]{4}$'' [staging_web] = None
   \<and> calls (snd (main demo_flags world_no_target)) =
       [CrmNewServiceCall, ProjectsListCall ''lifecycleState:ACTIVE labels.environment=dev'',
        CrmNewServiceCall, ProjectsListCall ''lifecycleState:ACTIVE labels.environment=staging'',
        DefaultClientCall, ComputeNewServiceCall, ProjectsGetCall ''prj-dev-billing-ab12'',
        RegionsListCall ''prj-dev-billing-ab12'']"
  by (simp add: world_no_target_def staging_web_def run_defs demo_defs)

section \<open>One comparison looks at the first occurrence only\<close>

lemma compareProjectQuota_first:
  "\<forall>x\<in>set pre. Metric x \<noteq> Metric q \<Longrightarrow> Metric t = Metric q \<Longrightarrow>
   compareProjectQuota fp tp (pre @ t # post) q st = compareProjectQuota fp tp [t] q st"
  by (simp add: compareProjectQuota_def findQuota_first)

lemma compareRegionQuota_first:
  "\<forall>x\<in>set pre. Metric x \<noteq> Metric q \<Longrightarrow> Metric t = Metric q \<Longrightarrow>
   compareRegionQuota fp tp fr (tr\<lparr>Region.Quotas := pre @ t # post\<rparr>) q st =
   compareRegionQuota fp tp fr (tr\<lparr>Region.Quotas := [t]\<rparr>) q st"
  by (simp add: compareRegionQuota_def findQuota_first)

lemma compareRegion_first:
  "\<forall>x\<in>set rpre. Region.Name x \<noteq> Region.Name fr \<Longrightarrow> Region.Name tr = Region.Name fr \<Longrightarrow>
   compareRegion fp tp (rpre @ tr # rpost) fr st = compareRegion fp tp [tr] fr st"
  by (simp add: compareRegion_def findRegion_first)

section \<open>Matching and fetching in one iteration of \<^verbatim>\<open>main\<close>\<close>

lemma calls_compareProjectQuota [simp]:
  "calls (compareProjectQuota fp tp toQs q s) = calls s"
  by (simp add: compareProjectQuota_def split: option.splits)

lemma calls_compareProjectQuotas [simp]:
  "calls (snd (compareProjectQuotas fp tp tq xs st)) = calls st"
  by (induction xs arbitrary: st) (auto split: option.splits)

lemma calls_compareRegionQuota [simp]:
  "calls (compareRegionQuota fp tp fr tr q s) = calls s"
  by (simp add: compareRegionQuota_def split: option.splits)

lemma calls_compareRegionQuotas [simp]:
  "calls (compareRegionQuotas fp tp fr tr xs st) = calls st"
  by (induction xs arbitrary: st) auto

lemma calls_compareRegion [simp]:
  "calls (compareRegion fp tp toItems fr s) = calls s"
  by (simp add: compareRegion_def split: option.splits)

lemma calls_compareRegions [simp]:
  "calls (snd (compareRegions fp tp tq xs st)) = calls st"
  by (induction xs arbitrary: st) (auto split: option.splits)

lemma calls_diff [simp]: "calls (snd (diff fp tp fq tq st)) = calls st"
proof (cases fq)
  case None
  then show ?thesis by (simp add: diff_def)
next
  case (Some f)
  obtain r st1 where c: "compareProjectQuotas fp tp tq (ComputeProject.Quotas (project f)) st = (r, st1)"
    by (cases "compareProjectQuotas fp tp tq (ComputeProject.Quotas (project f)) st")
  have "calls st1 = calls st"
    using calls_compareProjectQuotas [of fp tp tq "ComputeProject.Quotas (project f)" st] c by simp
  with Some c show ?thesis
    by (cases r) (simp_all add: diff_def split: option.splits)
qed

lemma GetQuotas_calls:
  "\<exists>cs. calls (snd (GetQuotas w pid st)) = calls st @ DefaultClientCall # cs"
  by (simp add: GetQuotas_def split: option.splits sum.splits)

lemma GetQuotas_ProjectsGetCall:
  "DefaultClient w (calls st) = None \<Longrightarrow>
   ComputeNewService w (calls st @ [DefaultClientCall]) = None \<Longrightarrow>
   ProjectsGetCall pid \<in> set (calls (snd (GetQuotas w pid st)))"
  by (simp add: GetQuotas_def split: option.splits sum.splits)

lemma GetQuotas_logs:
  "GetQuotas w pid st = (Return x, st1) \<Longrightarrow>
   issues st1 = issues st \<and>
   (logs st1 = logs st \<or> (\<exists>e. logs st1 = logs st @ [ProjectQuotasFailureLog e])
      \<or> (\<exists>e. logs st1 = logs st @ [RegionQuotasFailureLog e]))"
  by (auto simp: GetQuotas_def split: option.splits sum.splits)

lemma compareFromProject_unmatched:
  assumes "Compiles w (regexFrom fl)"
    and "1 < length (FindStringSubmatch w (regexFrom fl) (ProjectId fromProject))"
    and "r1 = Sprintf w (regexTo fl) (FindStringSubmatch w (regexFrom fl) (ProjectId fromProject) ! 1)"
    and "Compiles w r1"
    and "findToProject w r1 toProjects = None"
  shows "compareFromProject fl w toProjects fromProject st =
     (case GetQuotas w (ProjectId fromProject) st of
        (Panic p, st1) \<Rightarrow> (Panic p, st1)
      | (Exit c, st1) \<Rightarrow> (Exit c, st1)
      | (Return (Some err, fromProjectQuotas), st1) \<Rightarrow>
          (Exit 1, log_printf (ProjectErrorFatal (ProjectId fromProject) err) st1)
      | (Return (None, fromProjectQuotas), st1) \<Rightarrow> (Return (), st1))"
  using assms
  by (simp add: compareFromProject_def split: prod.splits res.splits option.splits)

lemma compareFromProject_matched:
  assumes "Compiles w (regexFrom fl)"
    and "1 < length (FindStringSubmatch w (regexFrom fl) (ProjectId fromProject))"
    and "r1 = Sprintf w (regexTo fl) (FindStringSubmatch w (regexFrom fl) (ProjectId fromProject) ! 1)"
    and "Compiles w r1"
    and "findToProject w r1 toProjects = Some toProjectFound"
    and "GetQuotas w (ProjectId fromProject) st = (Return (None, fromProjectQuotas), st1)"
  shows "compareFromProject fl w toProjects fromProject st =
     (case GetQuotas w (ProjectId toProjectFound) st1 of
        (Panic p, st2) \<Rightarrow> (Panic p, st2)
      | (Exit c, st2) \<Rightarrow> (Exit c, st2)
      | (Return (Some err, toProjectQuotas), st2) \<Rightarrow>
          (Exit 1, log_printf (ProjectErrorFatal (ProjectId fromProject) err) st2)
      | (Return (None, toProjectQuotas), st2) \<Rightarrow>
          diff fromProject toProjectFound fromProjectQuotas toProjectQuotas st2)"
  using assms
  by (simp add: compareFromProject_def split: prod.splits res.splits option.splits)

text \<open>
  C7, as amended. Let the source pattern compile and capture a name from the id of the
  from project, let the target pattern \<open>r1\<close> built from the name compile, and let the
  fetch of the from project's quotas (line 191, before the search) return without an
  error. Then: the to project that is compared is the first one of \<open>toProjects\<close>, in
  the given order, whose id \<open>r1\<close> matches (with its quotas fetched, the iteration is
  the comparison with that project); if no to project matches, the iteration returns in
  the state the fetch left, so that nothing is logged about the skipped pair, and the loop
  goes on with the next from project. The fetch itself appends no issue and logs at most
  one line, the failure of its project or of its region query.
\<close>

theorem first_match_selected_no_match_skipped:
  assumes "Compiles w (regexFrom fl)"
    and "1 < length (FindStringSubmatch w (regexFrom fl) (ProjectId fromProject))"
    and "r1 = Sprintf w (regexTo fl) (FindStringSubmatch w (regexFrom fl) (ProjectId fromProject) ! 1)"
    and "Compiles w r1"
    and "GetQuotas w (ProjectId fromProject) st = (Return (None, fromProjectQuotas), st1)"
  shows "(\<forall>pre p post tq st2.
            toProjects = pre @ p # post \<and> MatchString w r1 (ProjectId p)
            \<and> (\<forall>x\<in>set pre. \<not> MatchString w r1 (ProjectId x))
            \<and> GetQuotas w (ProjectId p) st1 = (Return (None, tq), st2) \<longrightarrow>
            compareFromProject fl w toProjects fromProject st =
              diff fromProject p fromProjectQuotas tq st2)
     \<and> ((\<forall>x\<in>set toProjects. \<not> MatchString w r1 (ProjectId x)) \<longrightarrow>
            compareFromProject fl w toProjects fromProject st = (Return (), st1)
            \<and> forEachFromProject fl w toProjects (fromProject # rest) st =
                forEachFromProject fl w toProjects rest st1)
     \<and> issues st1 = issues st
     \<and> (logs st1 = logs st \<or> (\<exists>e. logs st1 = logs st @ [ProjectQuotasFailureLog e])
          \<or> (\<exists>e. logs st1 = logs st @ [RegionQuotasFailureLog e]))"
proof -
  have sel: "compareFromProject fl w toProjects fromProject st =
              diff fromProject p fromProjectQuotas tq st2"
    if "toProjects = pre @ p # post" "MatchString w r1 (ProjectId p)"
      "\<forall>x\<in>set pre. \<not> MatchString w r1 (ProjectId x)"
      "GetQuotas w (ProjectId p) st1 = (Return (None, tq), st2)"
    for pre p post tq st2
  proof -
    from that have "findToProject w r1 toProjects = Some p"
      using findToProject_Some_iff [of w r1 toProjects p] by blast
    from compareFromProject_matched [OF assms(1-4) this assms(5)] that(4)
    show ?thesis by simp
  qed
  have skip: "compareFromProject fl w toProjects fromProject st = (Return (), st1)
            \<and> forEachFromProject fl w toProjects (fromProject # rest) st =
                forEachFromProject fl w toProjects rest st1"
    if "\<forall>x\<in>set toProjects. \<not> MatchString w r1 (ProjectId x)"
  proof -
    from that have "findToProject w r1 toProjects = None"
      by (simp add: findToProject_None_iff)
    from compareFromProject_unmatched [OF assms(1-4) this, of st] assms(5)
    have "compareFromProject fl w toProjects fromProject st = (Return (), st1)" by simp
    then show ?thesis by simp
  qed
  from GetQuotas_logs [OF assms(5)] sel skip show ?thesis by blast
qed

text \<open>
  C8, as amended. Let the source pattern compile and capture a name and the target
  pattern compile. The calls of the iteration start with the calls of \<^verbatim>\<open>GetQuotas\<close>
  for the from project, whether a to project matches or not, and this fetch makes at
  least the call for the credentials. If no to project matches these are all the calls of
  the iteration: no quotas of a to project are fetched. When the credentials and the
  compute service are available, the project quotas of the from project are queried.
\<close>

theorem from_quotas_fetched_before_match:
  assumes "Compiles w (regexFrom fl)"
    and "1 < length (FindStringSubmatch w (regexFrom fl) (ProjectId fromProject))"
    and "r1 = Sprintf w (regexTo fl) (FindStringSubmatch w (regexFrom fl) (ProjectId fromProject) ! 1)"
    and "Compiles w r1"
  shows "(\<exists>cs cs'. calls (snd (compareFromProject fl w toProjects fromProject st)) =
              calls (snd (GetQuotas w (ProjectId fromProject) st)) @ cs'
            \<and> calls (snd (GetQuotas w (ProjectId fromProject) st)) = calls st @ DefaultClientCall # cs)
     \<and> ((\<forall>x\<in>set toProjects. \<not> MatchString w r1 (ProjectId x)) \<longrightarrow>
            calls (snd (compareFromProject fl w toProjects fromProject st)) =
              calls (snd (GetQuotas w (ProjectId fromProject) st)))
     \<and> (DefaultClient w (calls st) = None \<and> ComputeNewService w (calls st @ [DefaultClientCall]) = None \<longrightarrow>
            ProjectsGetCall (ProjectId fromProject)
              \<in> set (calls (snd (compareFromProject fl w toProjects fromProject st))))"
proof -
  obtain r st1 where g: "GetQuotas w (ProjectId fromProject) st = (r, st1)"
    by (cases "GetQuotas w (ProjectId fromProject) st")
  have none: "calls (snd (compareFromProject fl w toProjects fromProject st)) = calls st1"
    if "findToProject w r1 toProjects = None"
    using compareFromProject_unmatched [OF assms(1-4) that, of st] g
    by (cases r) (auto split: option.splits prod.splits)
  have some: "\<exists>cs'. calls (snd (compareFromProject fl w toProjects fromProject st)) = calls st1 @ cs'"
    if f: "findToProject w r1 toProjects = Some p" for p
  proof (cases r)
    case (Return x)
    obtain e q where x: "x = (e, q)" by (cases x)
    show ?thesis
    proof (cases e)
      case (Some err)
      with g Return x f assms show ?thesis by (simp add: compareFromProject_def)
    next
      case None
      obtain r2 st2 where g2: "GetQuotas w (ProjectId p) st1 = (r2, st2)"
        by (cases "GetQuotas w (ProjectId p) st1")
      from GetQuotas_calls [of w "ProjectId p" st1] g2
      obtain cs where cs: "calls st2 = calls st1 @ DefaultClientCall # cs" by auto
      from g Return x None have "GetQuotas w (ProjectId fromProject) st = (Return (None, q), st1)"
        by simp
      from compareFromProject_matched [OF assms(1-4) f this] g2 cs
      show ?thesis by (cases r2) (auto split: option.splits prod.splits)
    qed
  next
    case (Panic pn)
    with g f assms show ?thesis by (simp add: compareFromProject_def)
  next
    case (Exit c)
    with g f assms show ?thesis by (simp add: compareFromProject_def)
  qed
  have ext: "\<exists>cs'. calls (snd (compareFromProject fl w toProjects fromProject st)) = calls st1 @ cs'"
    using none some by (cases "findToProject w r1 toProjects") auto
  from GetQuotas_calls [of w "ProjectId fromProject" st] g
  obtain cs where cs: "calls st1 = calls st @ DefaultClientCall # cs" by auto
  have a: "\<exists>cs cs'. calls (snd (compareFromProject fl w toProjects fromProject st)) =
              calls (snd (GetQuotas w (ProjectId fromProject) st)) @ cs'
            \<and> calls (snd (GetQuotas w (ProjectId fromProject) st)) = calls st @ DefaultClientCall # cs"
    using ext cs g by auto
  have b: "calls (snd (compareFromProject fl w toProjects fromProject st)) =
              calls (snd (GetQuotas w (ProjectId fromProject) st))"
    if "\<forall>x\<in>set toProjects. \<not> MatchString w r1 (ProjectId x)"
    using none that g by (simp add: findToProject_None_iff)
  have c: "ProjectsGetCall (ProjectId fromProject)
              \<in> set (calls (snd (compareFromProject fl w toProjects fromProject st)))"
    if "DefaultClient w (calls st) = None" "ComputeNewService w (calls st @ [DefaultClientCall]) = None"
  proof -
    from GetQuotas_ProjectsGetCall [OF that, of "ProjectId fromProject"] g
    have "ProjectsGetCall (ProjectId fromProject) \<in> set (calls st1)" by simp
    with ext show ?thesis by auto
  qed
  from a b c show ?thesis by blast
qed

text \<open>
  C7, witness: a from project with no to project, and a from project whose to project
  is the second of three (the third matches as well).
\<close>

theorem first_match_selected_no_match_skipped_witness:
  "Compiles world_no_target (regexFrom demo_flags)
   \<and> 1 < length (FindStringSubmatch world_no_target (regexFrom demo_flags) (ProjectId dev_billing))
   \<and> Compiles world_no_target ''prj-[a-z]+-billing-[a-zA-Z0-9]{4}$''
   \<and> \<not> MatchString world_no_target ''prj-[a-z]+-billing-[a-zA-Z0-9]{4}$'' (ProjectId staging_web)
   \<and> compareFromProject demo_flags world_no_target [staging_web] dev_billing st0 =
        (Return (),
         \<lparr>logs = [],
          calls = [DefaultClientCall, ComputeNewServiceCall, ProjectsGetCall ''prj-dev-billing-ab12'',
                   RegionsListCall ''prj-dev-billing-ab12''],
          issues = []\<rparr>)
   \<and> MatchString world_limits_differ ''prj-[a-z]+-billing-[a-zA-Z0-9]{4}$'' (ProjectId staging_billing)
   \<and> compareFromProject demo_flags world_limits_differ [staging_web, staging_billing, staging_billing]
        dev_billing st0 =
       diff dev_billing staging_billing
         (Some \<lparr>projectId = ''prj-dev-billing-ab12'', project = cpus 24, regionList = Some \<lparr>Items = []\<rparr>\<rparr>)
         (Some \<lparr>projectId = ''prj-staging-billing-cd34'', project = cpus 32, regionList = Some \<lparr>Items = []\<rparr>\<rparr>)
         \<lparr>logs = [],
          calls = [DefaultClientCall, ComputeNewServiceCall, ProjectsGetCall ''prj-dev-billing-ab12'',
                   RegionsListCall ''prj-dev-billing-ab12'',
                   DefaultClientCall, ComputeNewServiceCall, ProjectsGetCall ''prj-staging-billing-cd34'',
                   RegionsListCall ''prj-staging-billing-cd34''],
          issues = []\<rparr>"
proof -
  let ?r1 = "''prj-[a-z]+-billing-[a-zA-Z0-9]{4}$''"
  let ?st1 = "\<lparr>logs = [],
          calls = [DefaultClientCall, ComputeNewServiceCall, ProjectsGetCall ''prj-dev-billing-ab12'',
                   RegionsListCall ''prj-dev-billing-ab12''],
          issues = []\<rparr>"
  let ?fq = "Some \<lparr>projectId = ''prj-dev-billing-ab12'', project = cpus 24, regionList = Some \<lparr>Items = []\<rparr>\<rparr>"
  have h1: "Compiles world_no_target (regexFrom demo_flags)"
    by (simp add: world_no_target_def staging_web_def demo_defs)
  have h2: "1 < length (FindStringSubmatch world_no_target (regexFrom demo_flags) (ProjectId dev_billing))"
    by (simp add: world_no_target_def staging_web_def demo_defs)
  have h3: "?r1 = Sprintf world_no_target (regexTo demo_flags)
      (FindStringSubmatch world_no_target (regexFrom demo_flags) (ProjectId dev_billing) ! 1)"
    by (simp add: world_no_target_def staging_web_def demo_defs)
  have h4: "Compiles world_no_target ?r1"
    by (simp add: world_no_target_def staging_web_def demo_defs)
  have h5: "GetQuotas world_no_target (ProjectId dev_billing) st0 = (Return (None, ?fq), ?st1)"
    by (simp add: world_no_target_def staging_web_def GetQuotas_def demo_defs)
  have n: "\<forall>x\<in>set [staging_web]. \<not> MatchString world_no_target ?r1 (ProjectId x)"
    by (simp add: world_no_target_def staging_web_def demo_defs)
  from first_match_selected_no_match_skipped [OF h1 h2 h3 h4 h5, of "[staging_web]"] n
  have skip: "compareFromProject demo_flags world_no_target [staging_web] dev_billing st0 = (Return (), ?st1)"
    by blast
  let ?st2 = "\<lparr>logs = [],
          calls = [DefaultClientCall, ComputeNewServiceCall, ProjectsGetCall ''prj-dev-billing-ab12'',
                   RegionsListCall ''prj-dev-billing-ab12'',
                   DefaultClientCall, ComputeNewServiceCall, ProjectsGetCall ''prj-staging-billing-cd34'',
                   RegionsListCall ''prj-staging-billing-cd34''],
          issues = []\<rparr>"
  let ?tq = "Some \<lparr>projectId = ''prj-staging-billing-cd34'', project = cpus 32, regionList = Some \<lparr>Items = []\<rparr>\<rparr>"
  have k1: "Compiles world_limits_differ (regexFrom demo_flags)"
    by (simp add: world_limits_differ_def staging_web_def demo_defs)
  have k2: "1 < length (FindStringSubmatch world_limits_differ (regexFrom demo_flags) (ProjectId dev_billing))"
    by (simp add: world_limits_differ_def staging_web_def demo_defs)
  have k3: "?r1 = Sprintf world_limits_differ (regexTo demo_flags)
      (FindStringSubmatch world_limits_differ (regexFrom demo_flags) (ProjectId dev_billing) ! 1)"
    by (simp add: world_limits_differ_def staging_web_def demo_defs)
  have k4: "Compiles world_limits_differ ?r1"
    by (simp add: world_limits_differ_def staging_web_def demo_defs)
  have k5: "GetQuotas world_limits_differ (ProjectId dev_billing) st0 = (Return (None, ?fq), ?st1)"
    by (simp add: world_limits_differ_def staging_web_def GetQuotas_def demo_defs)
  have m: "[staging_web, staging_billing, staging_billing] = [staging_web] @ staging_billing # [staging_billing]
      \<and> MatchString world_limits_differ ?r1 (ProjectId staging_billing)
      \<and> (\<forall>x\<in>set [staging_web]. \<not> MatchString world_limits_differ ?r1 (ProjectId x))
      \<and> GetQuotas world_limits_differ (ProjectId staging_billing) ?st1 = (Return (None, ?tq), ?st2)"
    by (simp add: world_limits_differ_def staging_web_def GetQuotas_def demo_defs)
  from first_match_selected_no_match_skipped [OF k1 k2 k3 k4 k5,
      of "[staging_web, staging_billing, staging_billing]"] m
  have sel: "compareFromProject demo_flags world_limits_differ
        [staging_web, staging_billing, staging_billing] dev_billing st0 =
      diff dev_billing staging_billing ?fq ?tq ?st2"
    by blast
  from h1 h2 h4 n m skip sel show ?thesis by simp
qed

text \<open>C8, witness: the from project without a to project.\<close>

theorem from_quotas_fetched_before_match_witness:
  "Compiles world_no_target (regexFrom demo_flags)
   \<and> 1 < length (FindStringSubmatch world_no_target (regexFrom demo_flags) (ProjectId dev_billing))
   \<and> Compiles world_no_target ''prj-[a-z]+-billing-[a-zA-Z0-9]{4}$''
   \<and> \<not> MatchString world_no_target ''prj-[a-z]+-billing-[a-zA-Z0-9]{4}$'' (ProjectId staging_web)
   \<and> DefaultClient world_no_target (calls st0) = None
   \<and> ComputeNewService world_no_target (calls st0 @ [DefaultClientCall]) = None
   \<and> calls (snd (compareFromProject demo_flags world_no_target [staging_web] dev_billing st0)) =
       calls (snd (GetQuotas world_no_target (ProjectId dev_billing) st0))
   \<and> ProjectsGetCall (ProjectId dev_billing)
        \<in> set (calls (snd (compareFromProject demo_flags world_no_target [staging_web] dev_billing st0)))"
proof -
  let ?r1 = "''prj-[a-z]+-billing-[a-zA-Z0-9]{4}$''"
  have h1: "Compiles world_no_target (regexFrom demo_flags)"
    by (simp add: world_no_target_def staging_web_def demo_defs)
  have h2: "1 < length (FindStringSubmatch world_no_target (regexFrom demo_flags) (ProjectId dev_billing))"
    by (simp add: world_no_target_def staging_web_def demo_defs)
  have h3: "?r1 = Sprintf world_no_target (regexTo demo_flags)
      (FindStringSubmatch world_no_target (regexFrom demo_flags) (ProjectId dev_billing) ! 1)"
    by (simp add: world_no_target_def staging_web_def demo_defs)
  have h4: "Compiles world_no_target ?r1"
    by (simp add: world_no_target_def staging_web_def demo_defs)
  have n: "\<forall>x\<in>set [staging_web]. \<not> MatchString world_no_target ?r1 (ProjectId x)"
    by (simp add: world_no_target_def staging_web_def demo_defs)
  have d: "DefaultClient world_no_target (calls st0) = None
      \<and> ComputeNewService world_no_target (calls st0 @ [DefaultClientCall]) = None"
    by (simp add: world_no_target_def staging_web_def demo_defs)
  from n have n': "\<not> MatchString world_no_target ?r1 (ProjectId staging_web)" by simp
  from from_quotas_fetched_before_match [OF h1 h2 h3 h4, of "[staging_web]" st0] n d
  have "calls (snd (compareFromProject demo_flags world_no_target [staging_web] dev_billing st0)) =
       calls (snd (GetQuotas world_no_target (ProjectId dev_billing) st0))
     \<and> ProjectsGetCall (ProjectId dev_billing)
        \<in> set (calls (snd (compareFromProject demo_flags world_no_target [staging_web] dev_billing st0)))"
    by blast
  with h1 h2 h4 n' d show ?thesis by blast
qed

section \<open>Which issues and notices the comparison produces\<close>

lemma diff_Some_Some:
  "diff fp tp (Some fq) (Some tq) st =
     (case regionList fq of
        None \<Rightarrow>
          (Panic NilPointerDereference,
           foldl (\<lambda>s q. compareProjectQuota fp tp (ComputeProject.Quotas (project tq)) q s) st
             (ComputeProject.Quotas (project fq)))
      | Some frl \<Rightarrow>
          compareRegions fp tp (Some tq) (Items frl)
            (foldl (\<lambda>s q. compareProjectQuota fp tp (ComputeProject.Quotas (project tq)) q s) st
              (ComputeProject.Quotas (project fq))))"
  by (simp add: diff_def compareProjectQuotas_Some)

lemma project_pass_issues:
  "\<exists>P. issues (foldl (\<lambda>s q. compareProjectQuota fp tp toQs q s) st xs) = issues st @ P \<and>
     (\<forall>i\<in>set P. region i = [] \<and> metric i \<in> Metric ` set xs \<and> metric i \<in> Metric ` set toQs)"
proof -
  have "\<exists>P. issues (foldl (\<lambda>s q. compareProjectQuota fp tp toQs q s) st xs) = issues st @ P \<and>
     (\<forall>i\<in>set P. \<exists>q\<in>set xs. region i = [] \<and> metric i = Metric q \<and> metric i \<in> Metric ` set toQs)"
    by (rule foldl_issues) (rule compareProjectQuota_issues)
  then obtain P where
    p: "issues (foldl (\<lambda>s q. compareProjectQuota fp tp toQs q s) st xs) = issues st @ P"
    and j: "\<forall>i\<in>set P. \<exists>q\<in>set xs. region i = [] \<and> metric i = Metric q \<and> metric i \<in> Metric ` set toQs"
    by blast
  from j have "\<forall>i\<in>set P. region i = [] \<and> metric i \<in> Metric ` set xs \<and> metric i \<in> Metric ` set toQs"
    by force
  with p show ?thesis by blast
qed

lemma project_pass_notice:
  "q \<in> set xs \<Longrightarrow> Metric q \<notin> Metric ` set toQs \<Longrightarrow>
   MetricMissingLog (ProjectId fp) (Metric q)
     \<in> set (logs (foldl (\<lambda>s q. compareProjectQuota fp tp toQs q s) st xs))"
  by (rule foldl_notice [where x = q])
     (rule compareProjectQuota_logs_mono, rule compareProjectQuota_notice, assumption+)

lemma region_pass_issues:
  "\<exists>R. issues (foldl (\<lambda>s fr. compareRegion fp tp toItems fr s) st xs) = issues st @ R \<and>
     (\<forall>i\<in>set R. \<exists>fr\<in>set xs. \<exists>tr. findRegion (Region.Name fr) toItems = Some tr
        \<and> region i = Region.Name fr
        \<and> metric i \<in> Metric ` set (Region.Quotas fr) \<and> metric i \<in> Metric ` set (Region.Quotas tr))"
  by (rule foldl_issues) (rule compareRegion_issues)

lemma region_pass_notice:
  "fr \<in> set xs \<Longrightarrow> findRegion (Region.Name fr) toItems = Some tr \<Longrightarrow>
   q \<in> set (Region.Quotas fr) \<Longrightarrow> Metric q \<notin> Metric ` set (Region.Quotas tr) \<Longrightarrow>
   RegionMetricMissingLog (ProjectId fp) (Region.Name tr) (Metric q)
     \<in> set (logs (foldl (\<lambda>s fr. compareRegion fp tp toItems fr s) st xs))"
  by (rule foldl_notice [where x = fr])
     (rule compareRegion_logs_mono, rule compareRegion_notice, assumption+)

lemma region_pass_logs_mono:
  "set (logs st) \<subseteq> set (logs (foldl (\<lambda>s fr. compareRegion fp tp toItems fr s) st xs))"
  by (rule foldl_logs_mono) (rule compareRegion_logs_mono)

text \<open>
  C3. For two snapshots that are present, whatever the comparison ends with, the issues
  it has appended are those of the project-level pass \<open>P\<close> followed by those of the
  region-level pass \<open>R\<close>. Every issue of \<open>P\<close> is for a metric that occurs in the
  project-level quotas of both snapshots; every issue of \<open>R\<close> is for a region of the
  from side, the to region found for its name, and a metric that occurs in the quotas of
  both regions. For a metric in the project-level quotas of the from side and absent from
  those of the to side, the notice of line 226 is in the log and no issue of \<open>P\<close> has the
  metric. For a metric of a from region absent from the to region found for its name, the
  notice of line 278 is in the log and no issue of \<open>R\<close> has that region and metric.
  (A from region whose name no to region has is not compared at all: line 258 logs the
  missing region, see \<open>compareRegion_region_missing\<close>.)
\<close>

theorem discrepancy_only_for_common_metric:
  assumes d: "diff fp tp (Some fq) (Some tq) st = (r, st')"
  shows "\<exists>P R. issues st' = issues st @ P @ R
     \<and> (\<forall>i\<in>set P. region i = []
           \<and> metric i \<in> Metric ` set (ComputeProject.Quotas (project fq))
           \<and> metric i \<in> Metric ` set (ComputeProject.Quotas (project tq)))
     \<and> (\<forall>i\<in>set R. \<exists>frl trl. regionList fq = Some frl \<and> regionList tq = Some trl
           \<and> (\<exists>fr\<in>set (Items frl). \<exists>tr. findRegion (Region.Name fr) (Items trl) = Some tr
                 \<and> region i = Region.Name fr
                 \<and> metric i \<in> Metric ` set (Region.Quotas fr)
                 \<and> metric i \<in> Metric ` set (Region.Quotas tr)))
     \<and> (\<forall>q\<in>set (ComputeProject.Quotas (project fq)).
           Metric q \<notin> Metric ` set (ComputeProject.Quotas (project tq)) \<longrightarrow>
             MetricMissingLog (ProjectId fp) (Metric q) \<in> set (logs st')
             \<and> (\<forall>i\<in>set P. metric i \<noteq> Metric q))
     \<and> (\<forall>frl trl fr tr. regionList fq = Some frl \<and> regionList tq = Some trl
           \<and> fr \<in> set (Items frl) \<and> findRegion (Region.Name fr) (Items trl) = Some tr \<longrightarrow>
           (\<forall>q\<in>set (Region.Quotas fr). Metric q \<notin> Metric ` set (Region.Quotas tr) \<longrightarrow>
              RegionMetricMissingLog (ProjectId fp) (Region.Name tr) (Metric q) \<in> set (logs st')
              \<and> (\<forall>i\<in>set R. region i = Region.Name fr \<longrightarrow> metric i \<noteq> Metric q)))"
proof -
  let ?FQ = "ComputeProject.Quotas (project fq)"
  let ?TQ = "ComputeProject.Quotas (project tq)"
  let ?st1 = "foldl (\<lambda>s q. compareProjectQuota fp tp ?TQ q s) st ?FQ"
  obtain P where p: "issues ?st1 = issues st @ P"
    and pj: "\<forall>i\<in>set P. region i = [] \<and> metric i \<in> Metric ` set ?FQ \<and> metric i \<in> Metric ` set ?TQ"
    using project_pass_issues [of fp tp ?TQ st ?FQ] by blast
  have pn: "MetricMissingLog (ProjectId fp) (Metric q) \<in> set (logs ?st1)"
    if "q \<in> set ?FQ" "Metric q \<notin> Metric ` set ?TQ" for q :: Quota
    using that by (rule project_pass_notice)
  have pno: "\<forall>i\<in>set P. metric i \<noteq> Metric q" if "Metric q \<notin> Metric ` set ?TQ" for q :: Quota
    using pj that by metis
  show ?thesis
  proof (cases "\<exists>frl trl. regionList fq = Some frl \<and> regionList tq = Some trl")
    case False
    have st': "st' = ?st1"
    proof (cases "regionList fq")
      case None
      with d show ?thesis by (simp add: diff_Some_Some)
    next
      case (Some frl)
      with False have "regionList tq = None" by (cases "regionList tq") auto
      with Some d show ?thesis
        by (simp add: diff_Some_Some compareRegions_no_list split: if_splits)
    qed
    have "issues st' = issues st @ P @ []" using p st' by simp
    moreover have "\<forall>i\<in>set []. \<exists>frl trl. regionList fq = Some frl \<and> regionList tq = Some trl
           \<and> (\<exists>fr\<in>set (Items frl). \<exists>tr. findRegion (Region.Name fr) (Items trl) = Some tr
                 \<and> region i = Region.Name fr
                 \<and> metric i \<in> Metric ` set (Region.Quotas fr)
                 \<and> metric i \<in> Metric ` set (Region.Quotas tr))" by simp
    moreover have "\<forall>q\<in>set ?FQ. Metric q \<notin> Metric ` set ?TQ \<longrightarrow>
             MetricMissingLog (ProjectId fp) (Metric q) \<in> set (logs st')
             \<and> (\<forall>i\<in>set P. metric i \<noteq> Metric q)"
      using pn pno st' by blast
    moreover have "\<forall>frl trl fr tr. regionList fq = Some frl \<and> regionList tq = Some trl
           \<and> fr \<in> set (Items frl) \<and> findRegion (Region.Name fr) (Items trl) = Some tr \<longrightarrow>
           (\<forall>q\<in>set (Region.Quotas fr). Metric q \<notin> Metric ` set (Region.Quotas tr) \<longrightarrow>
              RegionMetricMissingLog (ProjectId fp) (Region.Name tr) (Metric q) \<in> set (logs st')
              \<and> (\<forall>i\<in>set []. region i = Region.Name fr \<longrightarrow> metric i \<noteq> Metric q))"
      using False by blast
    ultimately show ?thesis using pj by blast
  next
    case True
    then obtain frl trl where frl: "regionList fq = Some frl" and trl: "regionList tq = Some trl"
      by blast
    let ?st2 = "foldl (\<lambda>s fr. compareRegion fp tp (Items trl) fr s) ?st1 (Items frl)"
    from d frl trl have st': "st' = ?st2"
      by (simp add: diff_Some_Some compareRegions_Some)
    obtain R where r: "issues ?st2 = issues ?st1 @ R"
      and rj: "\<forall>i\<in>set R. \<exists>fr\<in>set (Items frl). \<exists>tr. findRegion (Region.Name fr) (Items trl) = Some tr
        \<and> region i = Region.Name fr
        \<and> metric i \<in> Metric ` set (Region.Quotas fr) \<and> metric i \<in> Metric ` set (Region.Quotas tr)"
      using region_pass_issues [of fp tp "Items trl" ?st1 "Items frl"] by blast
    have i: "issues st' = issues st @ P @ R" using p r st' by simp
    have rj': "\<forall>i\<in>set R. \<exists>frl trl. regionList fq = Some frl \<and> regionList tq = Some trl
           \<and> (\<exists>fr\<in>set (Items frl). \<exists>tr. findRegion (Region.Name fr) (Items trl) = Some tr
                 \<and> region i = Region.Name fr
                 \<and> metric i \<in> Metric ` set (Region.Quotas fr)
                 \<and> metric i \<in> Metric ` set (Region.Quotas tr))"
      using rj frl trl by simp
    have "set (logs ?st1) \<subseteq> set (logs st')" unfolding st' by (rule region_pass_logs_mono)
    with pn pno have c4: "\<forall>q\<in>set ?FQ. Metric q \<notin> Metric ` set ?TQ \<longrightarrow>
             MetricMissingLog (ProjectId fp) (Metric q) \<in> set (logs st')
             \<and> (\<forall>i\<in>set P. metric i \<noteq> Metric q)"
      by blast
    have c5a: "RegionMetricMissingLog (ProjectId fp) (Region.Name tr) (Metric q) \<in> set (logs st')"
      if "fr \<in> set (Items frl)" "findRegion (Region.Name fr) (Items trl) = Some tr"
        "q \<in> set (Region.Quotas fr)" "Metric q \<notin> Metric ` set (Region.Quotas tr)"
      for fr :: Region and tr :: Region and q :: Quota
      unfolding st' using that by (rule region_pass_notice)
    have c5b: "metric i \<noteq> Metric q"
      if "findRegion (Region.Name fr) (Items trl) = Some tr"
        "Metric q \<notin> Metric ` set (Region.Quotas tr)" "i \<in> set R" "region i = Region.Name fr"
      for fr :: Region and tr :: Region and q :: Quota and i :: Issue
    proof -
      from bspec [OF rj that(3)] have
        "\<exists>(fr2::Region) tr2. findRegion (Region.Name fr2) (Items trl) = Some tr2 \<and> region i = Region.Name fr2
           \<and> metric i \<in> Metric ` set (Region.Quotas tr2)"
        by blast
      then obtain fr2 :: Region and tr2 where
        f2: "findRegion (Region.Name fr2) (Items trl) = Some tr2" "region i = Region.Name fr2"
          "metric i \<in> Metric ` set (Region.Quotas tr2)" by blast
      from f2(1,2) that(1,4) have "tr2 = tr" by simp
      with f2(3) that(2) show ?thesis by auto
    qed
    have c5: "\<forall>frl' trl' fr tr. regionList fq = Some frl' \<and> regionList tq = Some trl'
           \<and> fr \<in> set (Items frl') \<and> findRegion (Region.Name fr) (Items trl') = Some tr \<longrightarrow>
           (\<forall>q\<in>set (Region.Quotas fr). Metric q \<notin> Metric ` set (Region.Quotas tr) \<longrightarrow>
              RegionMetricMissingLog (ProjectId fp) (Region.Name tr) (Metric q) \<in> set (logs st')
              \<and> (\<forall>i\<in>set R. region i = Region.Name fr \<longrightarrow> metric i \<noteq> Metric q))"
      using frl trl c5a c5b by auto
    from i pj rj' c4 c5 show ?thesis by blast
  qed
qed

text \<open>
  C3, witness: \<^verbatim>\<open>GPUS_ALL_REGIONS\<close> is missing on the to side, \<^verbatim>\<open>SSD_TOTAL_GB\<close> is
  missing in \<^verbatim>\<open>us-east1\<close> of the to side.
\<close>

theorem discrepancy_only_for_common_metric_witness:
  "diff dev_billing staging_billing (Some dev_snapshot) (Some staging_snapshot) st0 =
     (Return (), compared_state)
   \<and> MetricMissingLog (ProjectId dev_billing) ''GPUS_ALL_REGIONS'' \<in> set (logs compared_state)
   \<and> RegionMetricMissingLog (ProjectId dev_billing) ''us-east1'' ''SSD_TOTAL_GB''
        \<in> set (logs compared_state)
   \<and> (\<exists>P R. issues compared_state = issues st0 @ P @ R
         \<and> \<not> (\<exists>i\<in>set P. metric i = ''GPUS_ALL_REGIONS'')
         \<and> \<not> (\<exists>i\<in>set R. region i = ''us-east1'' \<and> metric i = ''SSD_TOTAL_GB''))"
proof -
  let ?fr = "region_of ''us-east1'' [quota ''DISKS_TOTAL_GB'' (Finite 500), quota ''SSD_TOTAL_GB'' (Finite 100)]"
  let ?tr = "region_of ''us-east1'' [quota ''DISKS_TOTAL_GB'' (Finite 500)]"
  have h: "diff dev_billing staging_billing (Some dev_snapshot) (Some staging_snapshot) st0 =
     (Return (), compared_state)"
    by (simp add: dev_snapshot_def staging_snapshot_def compared_state_def run_defs demo_defs)
  from discrepancy_only_for_common_metric [OF h] obtain P R where
    i: "issues compared_state = issues st0 @ P @ R"
    and pn: "\<forall>q\<in>set (ComputeProject.Quotas (project dev_snapshot)).
           Metric q \<notin> Metric ` set (ComputeProject.Quotas (project staging_snapshot)) \<longrightarrow>
             MetricMissingLog (ProjectId dev_billing) (Metric q) \<in> set (logs compared_state)
             \<and> (\<forall>i\<in>set P. metric i \<noteq> Metric q)"
    and rn: "\<forall>frl trl fr tr. regionList dev_snapshot = Some frl \<and> regionList staging_snapshot = Some trl
           \<and> fr \<in> set (Items frl) \<and> findRegion (Region.Name fr) (Items trl) = Some tr \<longrightarrow>
           (\<forall>q\<in>set (Region.Quotas fr). Metric q \<notin> Metric ` set (Region.Quotas tr) \<longrightarrow>
              RegionMetricMissingLog (ProjectId dev_billing) (Region.Name tr) (Metric q)
                \<in> set (logs compared_state)
              \<and> (\<forall>i\<in>set R. region i = Region.Name fr \<longrightarrow> metric i \<noteq> Metric q))"
    by blast
  have q: "quota ''GPUS_ALL_REGIONS'' (Finite 1) \<in> set (ComputeProject.Quotas (project dev_snapshot))
      \<and> Metric (quota ''GPUS_ALL_REGIONS'' (Finite 1))
           \<notin> Metric ` set (ComputeProject.Quotas (project staging_snapshot))"
    by (simp add: dev_snapshot_def staging_snapshot_def demo_defs)
  with pn have a: "MetricMissingLog (ProjectId dev_billing) (Metric (quota ''GPUS_ALL_REGIONS'' (Finite 1)))
        \<in> set (logs compared_state)
      \<and> (\<forall>i\<in>set P. metric i \<noteq> Metric (quota ''GPUS_ALL_REGIONS'' (Finite 1)))"
    by blast
  have r: "regionList dev_snapshot = Some \<lparr>Items = [?fr]\<rparr>
      \<and> regionList staging_snapshot = Some \<lparr>Items = [?tr]\<rparr>
      \<and> ?fr \<in> set (Items \<lparr>Items = [?fr]\<rparr>)
      \<and> findRegion (Region.Name ?fr) (Items \<lparr>Items = [?tr]\<rparr>) = Some ?tr"
    by (simp add: dev_snapshot_def staging_snapshot_def demo_defs)
  have rq: "quota ''SSD_TOTAL_GB'' (Finite 100) \<in> set (Region.Quotas ?fr)
      \<and> Metric (quota ''SSD_TOTAL_GB'' (Finite 100)) \<notin> Metric ` set (Region.Quotas ?tr)"
    by (simp add: demo_defs)
  from rn r rq have b: "RegionMetricMissingLog (ProjectId dev_billing) (Region.Name ?tr)
          (Metric (quota ''SSD_TOTAL_GB'' (Finite 100))) \<in> set (logs compared_state)
      \<and> (\<forall>i\<in>set R. region i = Region.Name ?fr \<longrightarrow> metric i \<noteq> Metric (quota ''SSD_TOTAL_GB'' (Finite 100)))"
    by blast
  have n: "Metric (quota ''GPUS_ALL_REGIONS'' (Finite 1)) = ''GPUS_ALL_REGIONS''"
    "Metric (quota ''SSD_TOTAL_GB'' (Finite 100)) = ''SSD_TOTAL_GB''"
    "Region.Name ?tr = ''us-east1''" "Region.Name ?fr = ''us-east1''"
    by (simp_all add: demo_defs)
  from a b have "\<not> (\<exists>i\<in>set P. metric i = ''GPUS_ALL_REGIONS'')
         \<and> \<not> (\<exists>i\<in>set R. region i = ''us-east1'' \<and> metric i = ''SSD_TOTAL_GB'')"
    unfolding n by blast
  with i have "\<exists>P R. issues compared_state = issues st0 @ P @ R
         \<and> \<not> (\<exists>i\<in>set P. metric i = ''GPUS_ALL_REGIONS'')
         \<and> \<not> (\<exists>i\<in>set R. region i = ''us-east1'' \<and> metric i = ''SSD_TOTAL_GB'')"
    by blast
  with h a b show ?thesis unfolding n by blast
qed

section \<open>Snapshots that agree, and snapshots that differ in one limit\<close>

lemma float_ne_same: "l \<noteq> NaN \<Longrightarrow> \<not> float_ne l l"
  by (simp add: float_ne_def)

lemma float_ne_differ: "a \<noteq> b \<Longrightarrow> float_ne a b"
  by (simp add: float_ne_def)

lemma foldl_one_change:
  assumes "\<And>s y. y \<in> set pre \<union> set post \<Longrightarrow> f s y = s"
  shows "foldl f st (pre @ x # post) = f st x"
proof -
  have "foldl f st pre = st" by (rule foldl_unchanged) (simp add: assms)
  moreover have "foldl f (f st x) post = f st x" by (rule foldl_unchanged) (simp add: assms)
  ultimately show ?thesis by simp
qed

lemma compareProjectQuota_same:
  assumes "x \<in> set toQs" and "distinct (map Metric toQs)" and "Limit x \<noteq> NaN"
  shows "compareProjectQuota fp tp toQs x s = s"
proof -
  from assms(1,2) have "findQuota (Metric x) toQs = Some x" by (simp add: findQuota_distinct)
  then show ?thesis using assms(3) by (simp add: compareProjectQuota_equal float_ne_same)
qed

lemma compareRegionQuota_same:
  assumes "x \<in> set (Region.Quotas tr)" and "distinct (map Metric (Region.Quotas tr))"
    and "Limit x \<noteq> NaN"
  shows "compareRegionQuota fp tp fr tr x s = s"
proof -
  from assms(1,2) have "findQuota (Metric x) (Region.Quotas tr) = Some x"
    by (simp add: findQuota_distinct)
  then show ?thesis using assms(3) by (simp add: compareRegionQuota_equal float_ne_same)
qed

lemma compareRegion_same:
  assumes n: "Region.Name fr \<in> Region.Name ` set toItems"
    and s: "\<forall>tr\<in>set toItems. Region.Name fr = Region.Name tr \<longrightarrow>
        set (Region.Quotas fr) \<subseteq> set (Region.Quotas tr) \<and> distinct (map Metric (Region.Quotas tr))"
    and l: "\<forall>q\<in>set (Region.Quotas fr). Limit q \<noteq> NaN"
  shows "compareRegion fp tp toItems fr s = s"
proof -
  from n obtain tr where f: "findRegion (Region.Name fr) toItems = Some tr"
    using findRegion_None_iff [of "Region.Name fr" toItems] by (cases "findRegion (Region.Name fr) toItems") auto
  from findRegion_SomeD [OF f] s have
    sub: "set (Region.Quotas fr) \<subseteq> set (Region.Quotas tr)"
    and d: "distinct (map Metric (Region.Quotas tr))" by auto
  have "foldl (\<lambda>s q. compareRegionQuota fp tp fr tr q s) s (Region.Quotas fr) = s"
  proof (rule foldl_unchanged)
    fix s' x assume "x \<in> set (Region.Quotas fr)"
    with sub l have "x \<in> set (Region.Quotas tr)" "Limit x \<noteq> NaN" by auto
    then show "compareRegionQuota fp tp fr tr x s' = s'" using d by (simp add: compareRegionQuota_same)
  qed
  with f show ?thesis by (simp add: compareRegion_def compareRegionQuotas_foldl)
qed

lemma region_pass_same:
  assumes n: "Region.Name ` set xs \<subseteq> Region.Name ` set toItems"
    and s: "\<forall>fr\<in>set xs. \<forall>tr\<in>set toItems. Region.Name fr = Region.Name tr \<longrightarrow>
        set (Region.Quotas fr) = set (Region.Quotas tr) \<and> distinct (map Metric (Region.Quotas tr))"
    and l: "\<forall>fr\<in>set xs. \<forall>q\<in>set (Region.Quotas fr). Limit q \<noteq> NaN"
  shows "foldl (\<lambda>s fr. compareRegion fp tp toItems fr s) st xs = st"
proof (rule foldl_unchanged)
  fix s' fr assume m: "fr \<in> set xs"
  with n have "Region.Name fr \<in> Region.Name ` set toItems" by auto
  moreover from m s have "\<forall>tr\<in>set toItems. Region.Name fr = Region.Name tr \<longrightarrow>
        set (Region.Quotas fr) \<subseteq> set (Region.Quotas tr) \<and> distinct (map Metric (Region.Quotas tr))"
    by auto
  moreover from m l have "\<forall>q\<in>set (Region.Quotas fr). Limit q \<noteq> NaN" by auto
  ultimately show "compareRegion fp tp toItems fr s' = s'" by (rule compareRegion_same)
qed

lemma project_pass_same:
  assumes "set xs \<subseteq> set toQs" and "distinct (map Metric toQs)" and "\<forall>q\<in>set xs. Limit q \<noteq> NaN"
  shows "foldl (\<lambda>s q. compareProjectQuota fp tp toQs q s) st xs = st"
proof (rule foldl_unchanged)
  fix s' x assume "x \<in> set xs"
  with assms show "compareProjectQuota fp tp toQs x s' = s'"
    by (auto simp: compareProjectQuota_same)
qed

text \<open>
  C5, as amended. Let both snapshots carry their region list. Let the project-level
  quotas of the two be the same set of entries, with no metric twice on the to side and no
  limit NaN; let the regions of the two have the same names, and let two regions of the
  same name have the same set of entries, with no metric twice on the to side and no limit
  NaN. Then the comparison returns and leaves the state as it was: no issue is appended
  and nothing is logged.
\<close>

theorem identical_snapshots_no_discrepancy:
  assumes "regionList fq = Some frl" and "regionList tq = Some trl"
    and "set (ComputeProject.Quotas (project fq)) = set (ComputeProject.Quotas (project tq))"
    and "distinct (map Metric (ComputeProject.Quotas (project tq)))"
    and "\<forall>q\<in>set (ComputeProject.Quotas (project fq)). Limit q \<noteq> NaN"
    and "Region.Name ` set (Items frl) = Region.Name ` set (Items trl)"
    and "\<forall>fr\<in>set (Items frl). \<forall>tr\<in>set (Items trl). Region.Name fr = Region.Name tr \<longrightarrow>
           set (Region.Quotas fr) = set (Region.Quotas tr) \<and> distinct (map Metric (Region.Quotas tr))"
    and "\<forall>fr\<in>set (Items frl). \<forall>q\<in>set (Region.Quotas fr). Limit q \<noteq> NaN"
  shows "diff fp tp (Some fq) (Some tq) st = (Return (), st)"
proof -
  have p: "foldl (\<lambda>s q. compareProjectQuota fp tp (ComputeProject.Quotas (project tq)) q s) st
      (ComputeProject.Quotas (project fq)) = st"
    using assms(3,4,5) by (intro project_pass_same) auto
  have r: "foldl (\<lambda>s fr. compareRegion fp tp (Items trl) fr s) st (Items frl) = st"
    using assms(6,7,8) by (intro region_pass_same) auto
  from p r assms(1,2) show ?thesis by (simp add: diff_Some_Some compareRegions_Some)
qed

lemma project_pass_one:
  assumes d1: "distinct (map Metric FQ)" and d2: "distinct (map Metric TQ)"
    and q: "q \<in> set FQ" and t: "t \<in> set TQ" and m: "Metric t = Metric q"
    and ne: "Limit t \<noteq> Limit q"
    and rest: "set TQ - {t} = set FQ - {q}"
    and nan: "\<forall>x\<in>set FQ. x \<noteq> q \<longrightarrow> Limit x \<noteq> NaN"
  shows "foldl (\<lambda>s x. compareProjectQuota fp tp TQ x s) st FQ =
     append_issue
       \<lparr>fromProjectId = Project.Name fp, toProjectId = Project.Name tp, region = [],
        metric = Metric q, fromLimit = Limit q, toLimit = Limit t\<rparr>
       (log_printf
         (LimitDiffersLog (ProjectId fp) (Metric q) (Limit q) (ProjectId tp) (Metric t) (Limit t)) st)"
proof -
  from q obtain pre post where FQ: "FQ = pre @ q # post" by (auto dest: split_list)
  with d1 have nq: "q \<notin> set pre" "q \<notin> set post" by auto
  have same: "compareProjectQuota fp tp TQ y s = s" if "y \<in> set pre \<union> set post" for s y
  proof -
    from that nq FQ have y: "y \<in> set FQ" "y \<noteq> q" by auto
    with rest have "y \<in> set TQ" by blast
    moreover from y nan have "Limit y \<noteq> NaN" by blast
    ultimately show ?thesis using d2 by (simp add: compareProjectQuota_same)
  qed
  have "foldl (\<lambda>s x. compareProjectQuota fp tp TQ x s) st FQ = compareProjectQuota fp tp TQ q st"
    unfolding FQ by (rule foldl_one_change) (rule same)
  moreover from d2 t m have "findQuota (Metric q) TQ = Some t"
    using findQuota_distinct [of TQ t] by simp
  ultimately show ?thesis using ne by (simp add: compareProjectQuota_differs float_ne_differ)
qed

lemma region_quotas_one:
  assumes d1: "distinct (map Metric (Region.Quotas fr))"
    and d2: "distinct (map Metric (Region.Quotas tr))"
    and q: "q \<in> set (Region.Quotas fr)" and t: "t \<in> set (Region.Quotas tr)"
    and m: "Metric t = Metric q" and ne: "Limit t \<noteq> Limit q"
    and rest: "set (Region.Quotas tr) - {t} = set (Region.Quotas fr) - {q}"
    and nan: "\<forall>x\<in>set (Region.Quotas fr). x \<noteq> q \<longrightarrow> Limit x \<noteq> NaN"
  shows "foldl (\<lambda>s x. compareRegionQuota fp tp fr tr x s) st (Region.Quotas fr) =
     append_issue
       \<lparr>fromProjectId = Project.Name fp, toProjectId = Project.Name tp,
        region = Region.Name fr, metric = Metric q, fromLimit = Limit q, toLimit = Limit t\<rparr>
       (log_printf
         (RegionLimitDiffersLog (ProjectId fp) (Region.Name fr) (Metric q) (Limit q)
           (ProjectId tp) (Region.Name tr) (Metric t) (Limit t)) st)"
proof -
  from q obtain pre post where FQ: "Region.Quotas fr = pre @ q # post" by (auto dest: split_list)
  with d1 have nq: "q \<notin> set pre" "q \<notin> set post" by auto
  have same: "compareRegionQuota fp tp fr tr y s = s" if "y \<in> set pre \<union> set post" for s y
  proof -
    from that nq FQ have y: "y \<in> set (Region.Quotas fr)" "y \<noteq> q" by auto
    with rest have "y \<in> set (Region.Quotas tr)" by blast
    moreover from y nan have "Limit y \<noteq> NaN" by blast
    ultimately show ?thesis using d2 by (simp add: compareRegionQuota_same)
  qed
  have "foldl (\<lambda>s x. compareRegionQuota fp tp fr tr x s) st (Region.Quotas fr) =
      compareRegionQuota fp tp fr tr q st"
    unfolding FQ by (rule foldl_one_change) (rule same)
  moreover from d2 t m have "findQuota (Metric q) (Region.Quotas tr) = Some t"
    using findQuota_distinct [of "Region.Quotas tr" t] by simp
  ultimately show ?thesis using ne by (simp add: compareRegionQuota_differs float_ne_differ)
qed

lemma region_pass_one:
  assumes n1: "distinct (map Region.Name FR)" and n2: "distinct (map Region.Name TR)"
    and names: "Region.Name ` set FR \<subseteq> Region.Name ` set TR"
    and fr: "fr \<in> set FR" and tr: "tr \<in> set TR" and nm: "Region.Name tr = Region.Name fr"
    and d1: "distinct (map Metric (Region.Quotas fr))"
    and d2: "distinct (map Metric (Region.Quotas tr))"
    and q: "q \<in> set (Region.Quotas fr)" and t: "t \<in> set (Region.Quotas tr)"
    and m: "Metric t = Metric q" and ne: "Limit t \<noteq> Limit q"
    and rest: "set (Region.Quotas tr) - {t} = set (Region.Quotas fr) - {q}"
    and nan: "\<forall>x\<in>set (Region.Quotas fr). x \<noteq> q \<longrightarrow> Limit x \<noteq> NaN"
    and others: "\<forall>fr'\<in>set FR. \<forall>tr'\<in>set TR. Region.Name fr' = Region.Name tr' \<and> fr' \<noteq> fr \<longrightarrow>
        set (Region.Quotas fr') = set (Region.Quotas tr') \<and> distinct (map Metric (Region.Quotas tr'))"
    and onan: "\<forall>fr'\<in>set FR. fr' \<noteq> fr \<longrightarrow> (\<forall>x\<in>set (Region.Quotas fr'). Limit x \<noteq> NaN)"
  shows "foldl (\<lambda>s r. compareRegion fp tp TR r s) st FR =
     append_issue
       \<lparr>fromProjectId = Project.Name fp, toProjectId = Project.Name tp,
        region = Region.Name fr, metric = Metric q, fromLimit = Limit q, toLimit = Limit t\<rparr>
       (log_printf
         (RegionLimitDiffersLog (ProjectId fp) (Region.Name fr) (Metric q) (Limit q)
           (ProjectId tp) (Region.Name tr) (Metric t) (Limit t)) st)"
proof -
  from fr obtain pre post where FR: "FR = pre @ fr # post" by (auto dest: split_list)
  with n1 have nf: "fr \<notin> set pre" "fr \<notin> set post" by auto
  have same: "compareRegion fp tp TR y s = s" if "y \<in> set pre \<union> set post" for s y
  proof -
    from that nf FR have y: "y \<in> set FR" "y \<noteq> fr" by auto
    from y names have "Region.Name y \<in> Region.Name ` set TR" by auto
    moreover from y others have "\<forall>tr'\<in>set TR. Region.Name y = Region.Name tr' \<longrightarrow>
        set (Region.Quotas y) \<subseteq> set (Region.Quotas tr') \<and> distinct (map Metric (Region.Quotas tr'))"
      by auto
    moreover from y onan have "\<forall>x\<in>set (Region.Quotas y). Limit x \<noteq> NaN" by auto
    ultimately show ?thesis by (rule compareRegion_same)
  qed
  have "foldl (\<lambda>s r. compareRegion fp tp TR r s) st FR = compareRegion fp tp TR fr st"
    unfolding FR by (rule foldl_one_change) (rule same)
  moreover from n2 tr nm have "findRegion (Region.Name fr) TR = Some tr"
    using findRegion_distinct [of TR tr] by simp
  ultimately show ?thesis
    using region_quotas_one [OF d1 d2 q t m ne rest nan, of fp tp st]
    by (simp add: compareRegion_def compareRegionQuotas_foldl)
qed

lemma compareProjectQuota_issue_iff:
  "(issues (compareProjectQuota fp tp toQs x s) \<noteq> issues s) =
     (\<exists>u. findQuota (Metric x) toQs = Some u \<and> float_ne (Limit u) (Limit x))"
  by (cases "findQuota (Metric x) toQs") (simp_all add: compareProjectQuota_def)

lemma compareRegionQuota_issue_iff:
  "(issues (compareRegionQuota fp tp fr tr x s) \<noteq> issues s) =
     (\<exists>u. findQuota (Metric x) (Region.Quotas tr) = Some u \<and> float_ne (Limit u) (Limit x))"
  by (cases "findQuota (Metric x) (Region.Quotas tr)") (simp_all add: compareRegionQuota_def)

text \<open>
  C4, as amended. Let both snapshots carry their region list, with the same region names.
  First part: the project-level quotas have no metric twice on either side and are the
  same entries but for the entry \<open>q\<close> of the from side and the entry \<open>t\<close> of the to
  side, of the same metric and with different limits; no other limit is NaN; the regions
  agree as in C5. Second part: the project-level quotas agree as in C5, no region name
  occurs twice on either side, and the entries of the from region \<open>fr\<close> and of the to
  region \<open>tr\<close> of the same name are the same but for \<open>q\<close> and \<open>t\<close>; the other
  regions agree as in C5. In both cases the comparison returns and has appended exactly
  one issue, with the metric of \<open>q\<close>, the limit of \<open>q\<close> as \<open>fromLimit\<close> and the
  limit of \<open>t\<close> as \<open>toLimit\<close> (and the empty region, respectively the name of
  \<open>fr\<close>). Third and fourth part: one comparison appends an issue exactly when the
  metric is found on the to side and \<^verbatim>\<open>!=\<close> holds between the two limits.
\<close>

theorem one_differing_metric_one_discrepancy:
  assumes rl: "regionList fq = Some frl" "regionList tq = Some trl"
    and names: "Region.Name ` set (Items frl) = Region.Name ` set (Items trl)"
  shows
    "(distinct (map Metric (ComputeProject.Quotas (project fq)))
      \<and> distinct (map Metric (ComputeProject.Quotas (project tq)))
      \<and> q \<in> set (ComputeProject.Quotas (project fq)) \<and> t \<in> set (ComputeProject.Quotas (project tq))
      \<and> Metric t = Metric q \<and> Limit t \<noteq> Limit q
      \<and> set (ComputeProject.Quotas (project tq)) - {t} = set (ComputeProject.Quotas (project fq)) - {q}
      \<and> (\<forall>x\<in>set (ComputeProject.Quotas (project fq)). x \<noteq> q \<longrightarrow> Limit x \<noteq> NaN)
      \<and> (\<forall>fr'\<in>set (Items frl). \<forall>tr'\<in>set (Items trl). Region.Name fr' = Region.Name tr' \<longrightarrow>
            set (Region.Quotas fr') = set (Region.Quotas tr') \<and> distinct (map Metric (Region.Quotas tr')))
      \<and> (\<forall>fr'\<in>set (Items frl). \<forall>x\<in>set (Region.Quotas fr'). Limit x \<noteq> NaN)
      \<longrightarrow> (\<exists>st' i. diff fp tp (Some fq) (Some tq) st = (Return (), st') \<and> issues st' = issues st @ [i]
             \<and> region i = [] \<and> metric i = Metric q \<and> fromLimit i = Limit q \<and> toLimit i = Limit t))
   \<and> (set (ComputeProject.Quotas (project fq)) = set (ComputeProject.Quotas (project tq))
      \<and> distinct (map Metric (ComputeProject.Quotas (project tq)))
      \<and> (\<forall>x\<in>set (ComputeProject.Quotas (project fq)). Limit x \<noteq> NaN)
      \<and> distinct (map Region.Name (Items frl)) \<and> distinct (map Region.Name (Items trl))
      \<and> fr \<in> set (Items frl) \<and> tr \<in> set (Items trl) \<and> Region.Name tr = Region.Name fr
      \<and> distinct (map Metric (Region.Quotas fr)) \<and> distinct (map Metric (Region.Quotas tr))
      \<and> q \<in> set (Region.Quotas fr) \<and> t \<in> set (Region.Quotas tr)
      \<and> Metric t = Metric q \<and> Limit t \<noteq> Limit q
      \<and> set (Region.Quotas tr) - {t} = set (Region.Quotas fr) - {q}
      \<and> (\<forall>x\<in>set (Region.Quotas fr). x \<noteq> q \<longrightarrow> Limit x \<noteq> NaN)
      \<and> (\<forall>fr'\<in>set (Items frl). \<forall>tr'\<in>set (Items trl). Region.Name fr' = Region.Name tr' \<and> fr' \<noteq> fr \<longrightarrow>
            set (Region.Quotas fr') = set (Region.Quotas tr') \<and> distinct (map Metric (Region.Quotas tr')))
      \<and> (\<forall>fr'\<in>set (Items frl). fr' \<noteq> fr \<longrightarrow> (\<forall>x\<in>set (Region.Quotas fr'). Limit x \<noteq> NaN))
      \<longrightarrow> (\<exists>st' i. diff fp tp (Some fq) (Some tq) st = (Return (), st') \<and> issues st' = issues st @ [i]
             \<and> region i = Region.Name fr \<and> metric i = Metric q \<and> fromLimit i = Limit q
             \<and> toLimit i = Limit t))
   \<and> (issues (compareProjectQuota fp tp toQs x s) \<noteq> issues s) =
       (\<exists>u. findQuota (Metric x) toQs = Some u \<and> float_ne (Limit u) (Limit x))
   \<and> (issues (compareRegionQuota fp tp fr tr x s) \<noteq> issues s) =
       (\<exists>u. findQuota (Metric x) (Region.Quotas tr) = Some u \<and> float_ne (Limit u) (Limit x))"
proof (intro conjI impI)
  let ?FQ = "ComputeProject.Quotas (project fq)"
  let ?TQ = "ComputeProject.Quotas (project tq)"
  assume a: "distinct (map Metric ?FQ) \<and> distinct (map Metric ?TQ)
      \<and> q \<in> set ?FQ \<and> t \<in> set ?TQ \<and> Metric t = Metric q \<and> Limit t \<noteq> Limit q
      \<and> set ?TQ - {t} = set ?FQ - {q}
      \<and> (\<forall>x\<in>set ?FQ. x \<noteq> q \<longrightarrow> Limit x \<noteq> NaN)
      \<and> (\<forall>fr'\<in>set (Items frl). \<forall>tr'\<in>set (Items trl). Region.Name fr' = Region.Name tr' \<longrightarrow>
            set (Region.Quotas fr') = set (Region.Quotas tr') \<and> distinct (map Metric (Region.Quotas tr')))
      \<and> (\<forall>fr'\<in>set (Items frl). \<forall>x\<in>set (Region.Quotas fr'). Limit x \<noteq> NaN)"
  let ?i = "\<lparr>fromProjectId = Project.Name fp, toProjectId = Project.Name tp, region = [],
        metric = Metric q, fromLimit = Limit q, toLimit = Limit t\<rparr>"
  let ?st1 = "append_issue ?i (log_printf
         (LimitDiffersLog (ProjectId fp) (Metric q) (Limit q) (ProjectId tp) (Metric t) (Limit t)) st)"
  from a have p: "foldl (\<lambda>s x. compareProjectQuota fp tp ?TQ x s) st ?FQ = ?st1"
    by (intro project_pass_one) auto
  from a names have r: "foldl (\<lambda>s r. compareRegion fp tp (Items trl) r s) ?st1 (Items frl) = ?st1"
    by (intro region_pass_same) auto
  from p r rl have "diff fp tp (Some fq) (Some tq) st = (Return (), ?st1)"
    by (simp add: diff_Some_Some compareRegions_Some)
  moreover have "issues ?st1 = issues st @ [?i]" by simp
  ultimately show "\<exists>st' i. diff fp tp (Some fq) (Some tq) st = (Return (), st') \<and> issues st' = issues st @ [i]
             \<and> region i = [] \<and> metric i = Metric q \<and> fromLimit i = Limit q \<and> toLimit i = Limit t"
    by (intro exI [of _ ?st1] exI [of _ ?i]) simp
next
  let ?FQ = "ComputeProject.Quotas (project fq)"
  let ?TQ = "ComputeProject.Quotas (project tq)"
  assume a: "set ?FQ = set ?TQ \<and> distinct (map Metric ?TQ) \<and> (\<forall>x\<in>set ?FQ. Limit x \<noteq> NaN)
      \<and> distinct (map Region.Name (Items frl)) \<and> distinct (map Region.Name (Items trl))
      \<and> fr \<in> set (Items frl) \<and> tr \<in> set (Items trl) \<and> Region.Name tr = Region.Name fr
      \<and> distinct (map Metric (Region.Quotas fr)) \<and> distinct (map Metric (Region.Quotas tr))
      \<and> q \<in> set (Region.Quotas fr) \<and> t \<in> set (Region.Quotas tr)
      \<and> Metric t = Metric q \<and> Limit t \<noteq> Limit q
      \<and> set (Region.Quotas tr) - {t} = set (Region.Quotas fr) - {q}
      \<and> (\<forall>x\<in>set (Region.Quotas fr). x \<noteq> q \<longrightarrow> Limit x \<noteq> NaN)
      \<and> (\<forall>fr'\<in>set (Items frl). \<forall>tr'\<in>set (Items trl). Region.Name fr' = Region.Name tr' \<and> fr' \<noteq> fr \<longrightarrow>
            set (Region.Quotas fr') = set (Region.Quotas tr') \<and> distinct (map Metric (Region.Quotas tr')))
      \<and> (\<forall>fr'\<in>set (Items frl). fr' \<noteq> fr \<longrightarrow> (\<forall>x\<in>set (Region.Quotas fr'). Limit x \<noteq> NaN))"
  let ?i = "\<lparr>fromProjectId = Project.Name fp, toProjectId = Project.Name tp,
        region = Region.Name fr, metric = Metric q, fromLimit = Limit q, toLimit = Limit t\<rparr>"
  let ?st2 = "append_issue ?i (log_printf
         (RegionLimitDiffersLog (ProjectId fp) (Region.Name fr) (Metric q) (Limit q)
           (ProjectId tp) (Region.Name tr) (Metric t) (Limit t)) st)"
  from a have p: "foldl (\<lambda>s x. compareProjectQuota fp tp ?TQ x s) st ?FQ = st"
    by (intro project_pass_same) auto
  from names have sub: "Region.Name ` set (Items frl) \<subseteq> Region.Name ` set (Items trl)" by simp
  from a have n1: "distinct (map Region.Name (Items frl))"
    and n2: "distinct (map Region.Name (Items trl))"
    and fr: "fr \<in> set (Items frl)" and tr: "tr \<in> set (Items trl)"
    and nm: "Region.Name tr = Region.Name fr"
    and d1: "distinct (map Metric (Region.Quotas fr))"
    and d2: "distinct (map Metric (Region.Quotas tr))"
    and q: "q \<in> set (Region.Quotas fr)" and t: "t \<in> set (Region.Quotas tr)"
    and m: "Metric t = Metric q" and ne: "Limit t \<noteq> Limit q"
    and rest: "set (Region.Quotas tr) - {t} = set (Region.Quotas fr) - {q}"
    and nan: "\<forall>x\<in>set (Region.Quotas fr). x \<noteq> q \<longrightarrow> Limit x \<noteq> NaN"
    and others: "\<forall>fr'\<in>set (Items frl). \<forall>tr'\<in>set (Items trl).
        Region.Name fr' = Region.Name tr' \<and> fr' \<noteq> fr \<longrightarrow>
        set (Region.Quotas fr') = set (Region.Quotas tr') \<and> distinct (map Metric (Region.Quotas tr'))"
    and onan: "\<forall>fr'\<in>set (Items frl). fr' \<noteq> fr \<longrightarrow> (\<forall>x\<in>set (Region.Quotas fr'). Limit x \<noteq> NaN)"
    by blast+
  have r: "foldl (\<lambda>s r. compareRegion fp tp (Items trl) r s) st (Items frl) = ?st2"
    by (rule region_pass_one [OF n1 n2 sub fr tr nm d1 d2 q t m ne rest nan others onan])
  from p r rl have "diff fp tp (Some fq) (Some tq) st = (Return (), ?st2)"
    by (simp add: diff_Some_Some compareRegions_Some)
  moreover have "issues ?st2 = issues st @ [?i]" by simp
  ultimately show "\<exists>st' i. diff fp tp (Some fq) (Some tq) st = (Return (), st') \<and> issues st' = issues st @ [i]
             \<and> region i = Region.Name fr \<and> metric i = Metric q \<and> fromLimit i = Limit q
             \<and> toLimit i = Limit t"
    by (intro exI [of _ ?st2] exI [of _ ?i]) simp
next
  show "(issues (compareProjectQuota fp tp toQs x s) \<noteq> issues s) =
       (\<exists>u. findQuota (Metric x) toQs = Some u \<and> float_ne (Limit u) (Limit x))"
    by (rule compareProjectQuota_issue_iff)
next
  show "(issues (compareRegionQuota fp tp fr tr x s) \<noteq> issues s) =
       (\<exists>u. findQuota (Metric x) (Region.Quotas tr) = Some u \<and> float_ne (Limit u) (Limit x))"
    by (rule compareRegionQuota_issue_iff)
qed

text \<open>C5, witness: a snapshot and the same quotas and regions in another order.\<close>

theorem identical_snapshots_no_discrepancy_witness:
  "set (ComputeProject.Quotas (project snapshot_a)) =
     set (ComputeProject.Quotas (project snapshot_a_reordered))
   \<and> diff dev_billing staging_billing (Some snapshot_a) (Some snapshot_a_reordered) st0 =
       (Return (), st0)"
proof -
  let ?frl = "\<lparr>Items =
       [region_of ''us-east1'' [quota ''DISKS_TOTAL_GB'' (Finite 500), quota ''SSD_TOTAL_GB'' (Finite 100)],
        region_of ''europe-west1'' [quota ''DISKS_TOTAL_GB'' (Finite 200)]]\<rparr>"
  let ?trl = "\<lparr>Items =
       [region_of ''europe-west1'' [quota ''DISKS_TOTAL_GB'' (Finite 200)],
        region_of ''us-east1'' [quota ''SSD_TOTAL_GB'' (Finite 100), quota ''DISKS_TOTAL_GB'' (Finite 500)]]\<rparr>"
  have h1: "regionList snapshot_a = Some ?frl" by (simp add: snapshot_a_def snapshot_a_reordered_def demo_defs)
  have h2: "regionList snapshot_a_reordered = Some ?trl" by (simp add: snapshot_a_def snapshot_a_reordered_def demo_defs)
  have h3: "set (ComputeProject.Quotas (project snapshot_a)) =
     set (ComputeProject.Quotas (project snapshot_a_reordered))"
    by (simp add: snapshot_a_def snapshot_a_reordered_def demo_defs insert_commute)
  have h4: "distinct (map Metric (ComputeProject.Quotas (project snapshot_a_reordered)))"
    by (simp add: snapshot_a_def snapshot_a_reordered_def demo_defs)
  have h5: "\<forall>q\<in>set (ComputeProject.Quotas (project snapshot_a)). Limit q \<noteq> NaN"
    by (simp add: snapshot_a_def snapshot_a_reordered_def demo_defs)
  have h6: "Region.Name ` set (Items ?frl) = Region.Name ` set (Items ?trl)"
    by (simp add: demo_defs insert_commute)
  have h7: "\<forall>fr\<in>set (Items ?frl). \<forall>tr\<in>set (Items ?trl). Region.Name fr = Region.Name tr \<longrightarrow>
           set (Region.Quotas fr) = set (Region.Quotas tr) \<and> distinct (map Metric (Region.Quotas tr))"
    by (simp add: region_of_def quota_def insert_commute)
  have h8: "\<forall>fr\<in>set (Items ?frl). \<forall>q\<in>set (Region.Quotas fr). Limit q \<noteq> NaN"
    by (simp add: demo_defs)
  from identical_snapshots_no_discrepancy [OF h1 h2 h3 h4 h5 h6 h7 h8, of dev_billing staging_billing st0]
    h3 show ?thesis by simp
qed

text \<open>
  C4, witness: \<^verbatim>\<open>CPUS\<close> is 24 against 32 at project level; \<^verbatim>\<open>DISKS_TOTAL_GB\<close> is 500
  against 750 in \<^verbatim>\<open>us-east1\<close>.
\<close>

theorem one_differing_metric_one_discrepancy_witness:
  "(\<exists>st' i. diff dev_billing staging_billing (Some snapshot_a) (Some snapshot_more_cpus) st0 =
        (Return (), st')
      \<and> issues st' = issues st0 @ [i] \<and> region i = [] \<and> metric i = ''CPUS''
      \<and> fromLimit i = Finite 24 \<and> toLimit i = Finite 32)
   \<and> (\<exists>st' i. diff dev_billing staging_billing (Some snapshot_a) (Some snapshot_more_disks) st0 =
        (Return (), st')
      \<and> issues st' = issues st0 @ [i] \<and> region i = ''us-east1'' \<and> metric i = ''DISKS_TOTAL_GB''
      \<and> fromLimit i = Finite 500 \<and> toLimit i = Finite 750)"
proof -
  let ?fus = "region_of ''us-east1'' [quota ''DISKS_TOTAL_GB'' (Finite 500), quota ''SSD_TOTAL_GB'' (Finite 100)]"
  let ?eu = "region_of ''europe-west1'' [quota ''DISKS_TOTAL_GB'' (Finite 200)]"
  let ?tus = "region_of ''us-east1'' [quota ''SSD_TOTAL_GB'' (Finite 100), quota ''DISKS_TOTAL_GB'' (Finite 500)]"
  let ?tus2 = "region_of ''us-east1'' [quota ''SSD_TOTAL_GB'' (Finite 100), quota ''DISKS_TOTAL_GB'' (Finite 750)]"
  let ?c24 = "quota ''CPUS'' (Finite 24)"
  let ?c32 = "quota ''CPUS'' (Finite 32)"
  let ?d500 = "quota ''DISKS_TOTAL_GB'' (Finite 500)"
  let ?d750 = "quota ''DISKS_TOTAL_GB'' (Finite 750)"
  have fa: "regionList snapshot_a = Some \<lparr>Items = [?fus, ?eu]\<rparr>" by (simp add: snapshot_a_def snapshot_more_cpus_def snapshot_more_disks_def demo_defs)
  have tc: "regionList snapshot_more_cpus = Some \<lparr>Items = [?eu, ?tus]\<rparr>"
    by (simp add: snapshot_a_def snapshot_more_cpus_def snapshot_more_disks_def demo_defs)
  have td: "regionList snapshot_more_disks = Some \<lparr>Items = [?eu, ?tus2]\<rparr>"
    by (simp add: snapshot_a_def snapshot_more_cpus_def snapshot_more_disks_def demo_defs)
  have n1: "Region.Name ` set (Items \<lparr>Items = [?fus, ?eu]\<rparr>) = Region.Name ` set (Items \<lparr>Items = [?eu, ?tus]\<rparr>)"
    by (simp add: demo_defs insert_commute)
  have n2: "Region.Name ` set (Items \<lparr>Items = [?fus, ?eu]\<rparr>) = Region.Name ` set (Items \<lparr>Items = [?eu, ?tus2]\<rparr>)"
    by (simp add: demo_defs insert_commute)
  have qa: "ComputeProject.Quotas (project snapshot_a) = [?c24, quota ''GPUS_ALL_REGIONS'' (Finite 1)]"
    by (simp add: snapshot_a_def snapshot_more_cpus_def snapshot_more_disks_def demo_defs)
  have qc: "ComputeProject.Quotas (project snapshot_more_cpus) = [quota ''GPUS_ALL_REGIONS'' (Finite 1), ?c32]"
    by (simp add: snapshot_a_def snapshot_more_cpus_def snapshot_more_disks_def demo_defs)
  have qd: "ComputeProject.Quotas (project snapshot_more_disks) = [quota ''GPUS_ALL_REGIONS'' (Finite 1), ?c24]"
    by (simp add: snapshot_a_def snapshot_more_cpus_def snapshot_more_disks_def demo_defs)
  have p1: "distinct (map Metric (ComputeProject.Quotas (project snapshot_a)))"
    unfolding qa by (simp add: quota_def)
  have p2: "distinct (map Metric (ComputeProject.Quotas (project snapshot_more_cpus)))"
    unfolding qc by (simp add: quota_def)
  have p3: "?c24 \<in> set (ComputeProject.Quotas (project snapshot_a))" unfolding qa by simp
  have p4: "?c32 \<in> set (ComputeProject.Quotas (project snapshot_more_cpus))" unfolding qc by simp
  have p5: "Metric ?c32 = Metric ?c24" by (simp add: quota_def)
  have p6: "Limit ?c32 \<noteq> Limit ?c24" by (simp add: quota_def)
  have p7: "set (ComputeProject.Quotas (project snapshot_more_cpus)) - {?c32} =
          set (ComputeProject.Quotas (project snapshot_a)) - {?c24}"
    unfolding qa qc by (auto simp: quota_def)
  have p8: "\<forall>x\<in>set (ComputeProject.Quotas (project snapshot_a)). x \<noteq> ?c24 \<longrightarrow> Limit x \<noteq> NaN"
    unfolding qa by (simp add: quota_def)
  have p9: "\<forall>fr'\<in>set (Items \<lparr>Items = [?fus, ?eu]\<rparr>). \<forall>tr'\<in>set (Items \<lparr>Items = [?eu, ?tus]\<rparr>).
            Region.Name fr' = Region.Name tr' \<longrightarrow>
            set (Region.Quotas fr') = set (Region.Quotas tr') \<and> distinct (map Metric (Region.Quotas tr'))"
    by (simp add: region_of_def quota_def insert_commute)
  have p10: "\<forall>fr'\<in>set (Items \<lparr>Items = [?fus, ?eu]\<rparr>). \<forall>x\<in>set (Region.Quotas fr'). Limit x \<noteq> NaN"
    by (simp add: region_of_def quota_def)
  note th1 = one_differing_metric_one_discrepancy [OF fa tc n1,
      where q = ?c24 and t = ?c32 and fp = dev_billing and tp = staging_billing and st = st0]
  from th1 p1 p2 p3 p4 p5 p6 p7 p8 p9 p10
  have "\<exists>st' i. diff dev_billing staging_billing (Some snapshot_a) (Some snapshot_more_cpus) st0 =
        (Return (), st') \<and> issues st' = issues st0 @ [i]
      \<and> region i = [] \<and> metric i = Metric ?c24 \<and> fromLimit i = Limit ?c24 \<and> toLimit i = Limit ?c32"
    by blast
  then have a: "\<exists>st' i. diff dev_billing staging_billing (Some snapshot_a) (Some snapshot_more_cpus) st0 =
        (Return (), st')
      \<and> issues st' = issues st0 @ [i] \<and> region i = [] \<and> metric i = ''CPUS''
      \<and> fromLimit i = Finite 24 \<and> toLimit i = Finite 32"
    by (simp add: quota_def)
  have g1: "set (ComputeProject.Quotas (project snapshot_a)) =
        set (ComputeProject.Quotas (project snapshot_more_disks))"
    unfolding qa qd by (simp add: insert_commute)
  have g2: "distinct (map Metric (ComputeProject.Quotas (project snapshot_more_disks)))"
    unfolding qd by (simp add: quota_def)
  have g3: "\<forall>x\<in>set (ComputeProject.Quotas (project snapshot_a)). Limit x \<noteq> NaN"
    unfolding qa by (simp add: quota_def)
  have g4: "distinct (map Region.Name (Items \<lparr>Items = [?fus, ?eu]\<rparr>))" by (simp add: region_of_def)
  have g5: "distinct (map Region.Name (Items \<lparr>Items = [?eu, ?tus2]\<rparr>))" by (simp add: region_of_def)
  have g6: "?fus \<in> set (Items \<lparr>Items = [?fus, ?eu]\<rparr>)" by simp
  have g7: "?tus2 \<in> set (Items \<lparr>Items = [?eu, ?tus2]\<rparr>)" by simp
  have g8: "Region.Name ?tus2 = Region.Name ?fus" by (simp add: region_of_def)
  have g9: "distinct (map Metric (Region.Quotas ?fus))" by (simp add: region_of_def quota_def)
  have g10: "distinct (map Metric (Region.Quotas ?tus2))" by (simp add: region_of_def quota_def)
  have g11: "?d500 \<in> set (Region.Quotas ?fus)" by (simp add: region_of_def)
  have g12: "?d750 \<in> set (Region.Quotas ?tus2)" by (simp add: region_of_def)
  have g13: "Metric ?d750 = Metric ?d500" by (simp add: quota_def)
  have g14: "Limit ?d750 \<noteq> Limit ?d500" by (simp add: quota_def)
  have g15: "set (Region.Quotas ?tus2) - {?d750} = set (Region.Quotas ?fus) - {?d500}"
    by (auto simp: region_of_def quota_def)
  have g16: "\<forall>x\<in>set (Region.Quotas ?fus). x \<noteq> ?d500 \<longrightarrow> Limit x \<noteq> NaN"
    by (simp add: region_of_def quota_def)
  have g17: "\<forall>fr'\<in>set (Items \<lparr>Items = [?fus, ?eu]\<rparr>). \<forall>tr'\<in>set (Items \<lparr>Items = [?eu, ?tus2]\<rparr>).
            Region.Name fr' = Region.Name tr' \<and> fr' \<noteq> ?fus \<longrightarrow>
            set (Region.Quotas fr') = set (Region.Quotas tr') \<and> distinct (map Metric (Region.Quotas tr'))"
    by (simp add: region_of_def quota_def)
  have g18: "\<forall>fr'\<in>set (Items \<lparr>Items = [?fus, ?eu]\<rparr>). fr' \<noteq> ?fus \<longrightarrow>
            (\<forall>x\<in>set (Region.Quotas fr'). Limit x \<noteq> NaN)"
    by (simp add: region_of_def quota_def)
  note th2 = one_differing_metric_one_discrepancy [OF fa td n2,
      where q = ?d500 and t = ?d750 and fr = ?fus and tr = ?tus2
        and fp = dev_billing and tp = staging_billing and st = st0]
  from th2 g1 g2 g3 g4 g5 g6 g7 g8 g9 g10 g11 g12 g13 g14 g15 g16 g17 g18
  have "\<exists>st' i. diff dev_billing staging_billing (Some snapshot_a) (Some snapshot_more_disks) st0 =
        (Return (), st') \<and> issues st' = issues st0 @ [i]
      \<and> region i = Region.Name ?fus \<and> metric i = Metric ?d500
      \<and> fromLimit i = Limit ?d500 \<and> toLimit i = Limit ?d750"
    by blast
  then have b: "\<exists>st' i. diff dev_billing staging_billing (Some snapshot_a) (Some snapshot_more_disks) st0 =
        (Return (), st')
      \<and> issues st' = issues st0 @ [i] \<and> region i = ''us-east1'' \<and> metric i = ''DISKS_TOTAL_GB''
      \<and> fromLimit i = Finite 500 \<and> toLimit i = Finite 750"
    by (simp add: quota_def region_of_def)
  from a b show ?thesis by blast
qed

section \<open>Failed queries and nil snapshots\<close>

text \<open>
  What \<^verbatim>\<open>GetQuotas\<close> returns when the project query or the region query fails, and what
  the comparison does with a nil snapshot or a nil region list: it panics, but for a nil to
  snapshot when the from snapshot has no quotas and no regions.
\<close>

lemma GetQuotas_project_query_fails:
  "DefaultClient w (calls st) = None \<Longrightarrow>
   ComputeNewService w (calls st @ [DefaultClientCall]) = None \<Longrightarrow>
   ProjectsGet w (calls st @ [DefaultClientCall, ComputeNewServiceCall]) pid = Inl e \<Longrightarrow>
   GetQuotas w pid st =
     (Return (None, None),
      log_printf (ProjectQuotasFailureLog e)
        (record_call (ProjectsGetCall pid)
          (record_call ComputeNewServiceCall (record_call DefaultClientCall st))))"
  by (simp add: GetQuotas_def)

lemma GetQuotas_region_query_fails:
  "DefaultClient w (calls st) = None \<Longrightarrow>
   ComputeNewService w (calls st @ [DefaultClientCall]) = None \<Longrightarrow>
   ProjectsGet w (calls st @ [DefaultClientCall, ComputeNewServiceCall]) pid = Inr p \<Longrightarrow>
   RegionsList w (calls st @ [DefaultClientCall, ComputeNewServiceCall, ProjectsGetCall pid]) pid = Inl e \<Longrightarrow>
   GetQuotas w pid st =
     (Return (None, Some \<lparr>projectId = pid, project = p, regionList = None\<rparr>),
      log_printf (RegionQuotasFailureLog e)
        (record_call (RegionsListCall pid)
          (record_call (ProjectsGetCall pid)
            (record_call ComputeNewServiceCall (record_call DefaultClientCall st)))))"
  by (simp add: GetQuotas_def)

lemma diff_from_snapshot_nil:
  "diff fp tp None tq st = (Panic NilPointerDereference, st)"
  by (simp add: diff_def)

lemma diff_to_snapshot_nil:
  "diff fp tp (Some fq) None st =
     (if ComputeProject.Quotas (project fq) \<noteq> [] then (Panic NilPointerDereference, st)
      else case regionList fq of
             None \<Rightarrow> (Panic NilPointerDereference, st)
           | Some frl \<Rightarrow>
               if Items frl = [] then (Return (), st) else (Panic NilPointerDereference, st))"
proof (cases "ComputeProject.Quotas (project fq)")
  case Nil
  show ?thesis
  proof (cases "regionList fq")
    case None
    with Nil show ?thesis by (simp add: diff_def)
  next
    case (Some frl)
    with Nil show ?thesis by (cases "Items frl") (simp_all add: diff_def)
  qed
next
  case (Cons a list)
  then show ?thesis by (simp add: diff_def)
qed

lemma diff_from_region_list_nil:
  "regionList fq = None \<Longrightarrow>
   diff fp tp (Some fq) (Some tq) st =
     (Panic NilPointerDereference,
      foldl (\<lambda>s q. compareProjectQuota fp tp (ComputeProject.Quotas (project tq)) q s) st
        (ComputeProject.Quotas (project fq)))"
  by (simp add: diff_Some_Some)

section \<open>The fields of an issue, and an id the source pattern does not match\<close>

text \<open>
  An issue carries the display names of the two projects, the metric and the limit of the
  from entry, and the limit of the to entry found; its region is empty at project level
  and the name of the from region at region level. An iteration whose from project yields
  fewer than two submatches panics before anything is fetched or logged, and ends the loop.
\<close>

lemma compareFromProject_no_submatch:
  "Compiles w (regexFrom fl) \<Longrightarrow>
   length (FindStringSubmatch w (regexFrom fl) (ProjectId fromProject)) \<le> 1 \<Longrightarrow>
   compareFromProject fl w toProjects fromProject st =
     (Panic (IndexOutOfRange 1 (length (FindStringSubmatch w (regexFrom fl) (ProjectId fromProject)))), st)
   \<and> forEachFromProject fl w toProjects (fromProject # rest) st =
     (Panic (IndexOutOfRange 1 (length (FindStringSubmatch w (regexFrom fl) (ProjectId fromProject)))), st)"
  by (simp add: compareFromProject_def)

lemma compareProjectQuota_issue_fields:
  "issues (compareProjectQuota fp tp toQs q s) = issues s \<or>
   (\<exists>l. issues (compareProjectQuota fp tp toQs q s) =
      issues s @ [\<lparr>fromProjectId = Project.Name fp, toProjectId = Project.Name tp, region = [],
        metric = Metric q, fromLimit = Limit q, toLimit = l\<rparr>])"
  by (cases "findQuota (Metric q) toQs") (auto simp: compareProjectQuota_def)

lemma compareRegionQuota_issue_fields:
  "issues (compareRegionQuota fp tp fr tr q s) = issues s \<or>
   (\<exists>l. issues (compareRegionQuota fp tp fr tr q s) =
      issues s @ [\<lparr>fromProjectId = Project.Name fp, toProjectId = Project.Name tp,
        region = Region.Name fr, metric = Metric q, fromLimit = Limit q, toLimit = l\<rparr>])"
  by (cases "findQuota (Metric q) (Region.Quotas tr)") (auto simp: compareRegionQuota_def)

section \<open>Duplicates on the to side\<close>

lemma foldl_cong_steps:
  "(\<And>s x. f s x = g s x) \<Longrightarrow> foldl f st xs = foldl g st xs"
  by (induction xs arbitrary: st) auto

lemma findQuota_filter_other:
  "m \<noteq> n \<Longrightarrow> findQuota m (filter (\<lambda>x. Metric x \<noteq> n) qs) = findQuota m qs"
  by (induction qs) auto

lemma findQuota_later_dropped:
  "findQuota m (pre @ t # filter (\<lambda>x. Metric x \<noteq> Metric t) post) = findQuota m (pre @ t # post)"
  by (induction pre) (auto simp: findQuota_filter_other)

lemma findRegion_filter_other:
  "m \<noteq> n \<Longrightarrow> findRegion m (filter (\<lambda>x. Region.Name x \<noteq> n) rs) = findRegion m rs"
  by (induction rs) auto

lemma findRegion_later_dropped:
  "findRegion n (rpre @ tr # filter (\<lambda>x. Region.Name x \<noteq> Region.Name tr) rpost) =
   findRegion n (rpre @ tr # rpost)"
  by (induction rpre) (auto simp: findRegion_filter_other)

lemma compareRegions_regionList_cong:
  "regionList tq' = regionList tq \<Longrightarrow>
   compareRegions fp tp (Some tq') xs s = compareRegions fp tp (Some tq) xs s"
  by (induction xs arbitrary: s) (auto split: option.splits)

lemma compareRegionQuota_quotas_cong:
  assumes "Region.Name tr' = Region.Name tr"
    and "\<And>m. findQuota m (Region.Quotas tr') = findQuota m (Region.Quotas tr)"
  shows "compareRegionQuota fp tp fr tr' q s = compareRegionQuota fp tp fr tr q s"
  by (cases "findQuota (Metric q) (Region.Quotas tr)") (simp_all add: compareRegionQuota_def assms)

lemma compareRegionQuotas_quotas_cong:
  assumes "Region.Name tr' = Region.Name tr"
    and "\<And>m. findQuota m (Region.Quotas tr') = findQuota m (Region.Quotas tr)"
  shows "compareRegionQuotas fp tp fr tr' xs s = compareRegionQuotas fp tp fr tr xs s"
  unfolding compareRegionQuotas_foldl
  by (rule foldl_cong_steps) (rule compareRegionQuota_quotas_cong [OF assms])

lemma compareRegion_quotas_cong:
  assumes "Region.Name tr' = Region.Name tr"
    and "\<And>m. findQuota m (Region.Quotas tr') = findQuota m (Region.Quotas tr)"
  shows "compareRegion fp tp (rpre @ tr' # rpost) fr s = compareRegion fp tp (rpre @ tr # rpost) fr s"
proof (induction rpre)
  case Nil
  show ?case
    using assms(1) compareRegionQuotas_quotas_cong [OF assms, of fp tp fr "Region.Quotas fr" s]
    by (simp add: compareRegion_def)
next
  case (Cons a rpre)
  then show ?case by (simp add: compareRegion_def)
qed

lemma diff_project_quotas_cong:
  assumes "\<And>m. findQuota m qs = findQuota m (ComputeProject.Quotas (project tq))"
  shows "diff fp tp (Some fq) (Some (tq\<lparr>project := \<lparr>ComputeProject.Quotas = qs\<rparr>\<rparr>)) st =
         diff fp tp (Some fq) (Some tq) st"
proof -
  have f: "foldl (\<lambda>s q. compareProjectQuota fp tp qs q s) st (ComputeProject.Quotas (project fq)) =
      foldl (\<lambda>s q. compareProjectQuota fp tp (ComputeProject.Quotas (project tq)) q s) st
        (ComputeProject.Quotas (project fq))"
    by (rule foldl_cong_steps) (simp add: compareProjectQuota_def assms)
  have r: "compareRegions fp tp (Some (tq\<lparr>project := \<lparr>ComputeProject.Quotas = qs\<rparr>\<rparr>)) xs s =
      compareRegions fp tp (Some tq) xs s" for xs s
    by (rule compareRegions_regionList_cong) simp
  have p: "ComputeProject.Quotas (project (tq\<lparr>project := \<lparr>ComputeProject.Quotas = qs\<rparr>\<rparr>)) = qs"
    by simp
  show ?thesis
    by (cases "regionList fq") (simp_all only: diff_Some_Some p f r option.case)
qed

lemma diff_region_items_cong:
  assumes rl: "regionList tq = Some trl"
    and "\<And>fr s. compareRegion fp tp items fr s = compareRegion fp tp (Items trl) fr s"
  shows "diff fp tp (Some fq) (Some (tq\<lparr>regionList := Some \<lparr>Items = items\<rparr>\<rparr>)) st =
         diff fp tp (Some fq) (Some tq) st"
proof -
  have "foldl (\<lambda>s fr. compareRegion fp tp items fr s) s xs =
      foldl (\<lambda>s fr. compareRegion fp tp (Items trl) fr s) s xs" for s xs
    by (rule foldl_cong_steps) (rule assms(2))
  then show ?thesis using rl by (simp add: diff_Some_Some compareRegions_Some split: option.splits)
qed

lemma foldl_issue_mem:
  assumes ext: "\<And>s x. \<exists>P. issues (f s x) = issues s @ P"
    and step: "\<And>s. i \<in> set (issues (f s x))"
    and mem: "x \<in> set xs"
  shows "i \<in> set (issues (foldl f st xs))"
  using mem
proof (induction xs arbitrary: st)
  case Nil
  then show ?case by simp
next
  case (Cons a xs)
  show ?case
  proof (cases "x = a")
    case True
    have "i \<in> set (issues (f st a))" using step True by simp
    moreover have "\<exists>P. issues (foldl f (f st a) xs) = issues (f st a) @ P"
    proof -
      have "\<exists>P. issues (foldl f (f st a) xs) = issues (f st a) @ P \<and> (\<forall>i\<in>set P. \<exists>x\<in>set xs. True)"
        by (rule foldl_issues) (use ext in auto)
      then show ?thesis by blast
    qed
    ultimately show ?thesis by auto
  next
    case False
    with Cons.prems have "x \<in> set xs" by simp
    then show ?thesis using Cons.IH by simp
  qed
qed

lemma compareProjectQuota_ext:
  "\<exists>P. issues (compareProjectQuota fp tp toQs q s) = issues s @ P"
  using compareProjectQuota_issues [of fp tp toQs q s] by blast

lemma compareRegionQuota_ext:
  "\<exists>P. issues (compareRegionQuota fp tp fr tr q s) = issues s @ P"
  using compareRegionQuota_issues [of fp tp fr tr q s] by blast

lemma compareRegion_ext:
  "\<exists>P. issues (compareRegion fp tp toItems fr s) = issues s @ P"
  using compareRegion_issues [of fp tp toItems fr s] by blast

lemma diff_issues_after_project_pass:
  "\<exists>R. issues (snd (diff fp tp (Some fq) (Some tq) st)) =
     issues (foldl (\<lambda>s q. compareProjectQuota fp tp (ComputeProject.Quotas (project tq)) q s) st
       (ComputeProject.Quotas (project fq))) @ R"
proof (cases "regionList fq")
  case None
  then show ?thesis by (simp add: diff_Some_Some)
next
  case (Some frl)
  show ?thesis
  proof (cases "regionList tq")
    case None
    with Some show ?thesis by (simp add: diff_Some_Some compareRegions_no_list)
  next
    case (Some trl)
    with \<open>regionList fq = Some frl\<close> region_pass_issues [of fp tp "Items trl" _ "Items frl"]
    show ?thesis by (simp add: diff_Some_Some compareRegions_Some) blast
  qed
qed

lemma project_issue_of_first:
  assumes tq: "ComputeProject.Quotas (project tq) = pre @ t # post"
    and pre: "\<forall>x\<in>set pre. Metric x \<noteq> Metric t"
    and q: "q \<in> set (ComputeProject.Quotas (project fq))"
    and m: "Metric q = Metric t" and ne: "float_ne (Limit t) (Limit q)"
  shows "\<lparr>fromProjectId = Project.Name fp, toProjectId = Project.Name tp, region = [],
            metric = Metric q, fromLimit = Limit q, toLimit = Limit t\<rparr>
         \<in> set (issues (snd (diff fp tp (Some fq) (Some tq) st)))"
proof -
  let ?i = "\<lparr>fromProjectId = Project.Name fp, toProjectId = Project.Name tp, region = [],
            metric = Metric q, fromLimit = Limit q, toLimit = Limit t\<rparr>"
  have f: "findQuota (Metric q) (pre @ t # post) = Some t"
    using pre m by (simp add: findQuota_first)
  have "?i \<in> set (issues (foldl (\<lambda>s q. compareProjectQuota fp tp (pre @ t # post) q s) st
       (ComputeProject.Quotas (project fq))))"
  proof (rule foldl_issue_mem [where x = q])
    show "\<exists>P. issues (compareProjectQuota fp tp (pre @ t # post) x s) = issues s @ P" for s x
      by (rule compareProjectQuota_ext)
    show "?i \<in> set (issues (compareProjectQuota fp tp (pre @ t # post) q s))" for s
      using f ne by (simp add: compareProjectQuota_differs)
    show "q \<in> set (ComputeProject.Quotas (project fq))" by (rule q)
  qed
  with diff_issues_after_project_pass [of fp tp fq tq st] tq show ?thesis by auto
qed

lemma region_issue_of_first:
  assumes frl: "regionList fq = Some frl" and trl: "regionList tq = Some trl"
    and items: "Items trl = rpre @ tr # rpost"
    and rpre: "\<forall>x\<in>set rpre. Region.Name x \<noteq> Region.Name tr"
    and quotas: "Region.Quotas tr = rqpre @ rt # rqpost"
    and rqpre: "\<forall>x\<in>set rqpre. Metric x \<noteq> Metric rt"
    and fr: "fr \<in> set (Items frl)" and n: "Region.Name fr = Region.Name tr"
    and q: "q \<in> set (Region.Quotas fr)"
    and m: "Metric q = Metric rt" and ne: "float_ne (Limit rt) (Limit q)"
  shows "\<lparr>fromProjectId = Project.Name fp, toProjectId = Project.Name tp,
            region = Region.Name fr, metric = Metric q, fromLimit = Limit q, toLimit = Limit rt\<rparr>
         \<in> set (issues (snd (diff fp tp (Some fq) (Some tq) st)))"
proof -
  let ?i = "\<lparr>fromProjectId = Project.Name fp, toProjectId = Project.Name tp,
            region = Region.Name fr, metric = Metric q, fromLimit = Limit q, toLimit = Limit rt\<rparr>"
  have fr': "findRegion (Region.Name fr) (Items trl) = Some tr"
    using rpre n items by (simp add: findRegion_first)
  have fq': "findQuota (Metric q) (Region.Quotas tr) = Some rt"
    using rqpre m quotas by (simp add: findQuota_first)
  have inner: "?i \<in> set (issues (compareRegion fp tp (Items trl) fr s))" for s
  proof -
    have "?i \<in> set (issues (foldl (\<lambda>s q. compareRegionQuota fp tp fr tr q s) s (Region.Quotas fr)))"
    proof (rule foldl_issue_mem [where x = q])
      show "\<exists>P. issues (compareRegionQuota fp tp fr tr x s') = issues s' @ P" for s' x
        by (rule compareRegionQuota_ext)
      show "?i \<in> set (issues (compareRegionQuota fp tp fr tr q s'))" for s'
        using fq' ne by (simp add: compareRegionQuota_differs)
      show "q \<in> set (Region.Quotas fr)" by (rule q)
    qed
    with fr' show ?thesis by (simp add: compareRegion_def compareRegionQuotas_foldl)
  qed
  have "?i \<in> set (issues (foldl (\<lambda>s fr. compareRegion fp tp (Items trl) fr s) s0 (Items frl)))" for s0
  proof (rule foldl_issue_mem [where x = fr])
    show "\<exists>P. issues (compareRegion fp tp (Items trl) x s) = issues s @ P" for s x
      by (rule compareRegion_ext)
    show "?i \<in> set (issues (compareRegion fp tp (Items trl) fr s))" for s by (rule inner)
    show "fr \<in> set (Items frl)" by (rule fr)
  qed
  with frl trl show ?thesis by (simp add: diff_Some_Some compareRegions_Some)
qed

lemma diff_later_quotas_dropped:
  "ComputeProject.Quotas (project tq) = pre @ t # post \<Longrightarrow>
   diff fp tp (Some fq)
     (Some (tq\<lparr>project := \<lparr>ComputeProject.Quotas =
        pre @ t # filter (\<lambda>x. Metric x \<noteq> Metric t) post\<rparr>\<rparr>)) st =
   diff fp tp (Some fq) (Some tq) st"
  by (rule diff_project_quotas_cong) (simp add: findQuota_later_dropped)

lemma diff_later_regions_dropped:
  assumes "regionList tq = Some trl" and "Items trl = rpre @ tr # rpost"
  shows "diff fp tp (Some fq)
     (Some (tq\<lparr>regionList := Some \<lparr>Items =
        rpre @ tr # filter (\<lambda>x. Region.Name x \<noteq> Region.Name tr) rpost\<rparr>\<rparr>)) st =
   diff fp tp (Some fq) (Some tq) st"
  using assms(1)
  by (rule diff_region_items_cong)
     (simp add: compareRegion_def assms(2) findRegion_later_dropped)

lemma diff_later_region_quotas_dropped:
  assumes "regionList tq = Some trl" and "Items trl = rpre @ tr # rpost"
    and "Region.Quotas tr = rqpre @ rt # rqpost"
  shows "diff fp tp (Some fq)
     (Some (tq\<lparr>regionList := Some \<lparr>Items =
        rpre @ tr\<lparr>Region.Quotas := rqpre @ rt # filter (\<lambda>x. Metric x \<noteq> Metric rt) rqpost\<rparr>
          # rpost\<rparr>\<rparr>)) st =
   diff fp tp (Some fq) (Some tq) st"
  using assms(1)
proof (rule diff_region_items_cong)
  fix fr s
  show "compareRegion fp tp
          (rpre @ tr\<lparr>Region.Quotas := rqpre @ rt # filter (\<lambda>x. Metric x \<noteq> Metric rt) rqpost\<rparr> # rpost)
          fr s = compareRegion fp tp (Items trl) fr s"
    unfolding assms(2)
    by (rule compareRegion_quotas_cong) (simp_all add: assms(3) findQuota_later_dropped)
qed

text \<open>
  C10. Let the project-level quotas of the to side be \<open>pre @ t # post\<close>, where no
  entry of \<open>pre\<close> has the metric of \<open>t\<close>: \<open>t\<close> is the first occurrence of its
  metric. Then the comparison is the same as the comparison with every later entry of that
  metric removed from the to side, and for every from entry of that metric whose limit
  \<^verbatim>\<open>!=\<close> the limit of \<open>t\<close>, the issue with the limit of \<open>t\<close> as \<open>toLimit\<close> is
  among the issues. Let both region lists be present and the regions of the to side be
  \<open>rpre @ tr # rpost\<close>, where no region of \<open>rpre\<close> has the name of \<open>tr\<close>. Then the
  comparison is the same as the comparison with every later region of that name removed;
  and if the quotas of \<open>tr\<close> are \<open>rqpre @ rt # rqpost\<close> with \<open>rt\<close> the first
  occurrence of its metric, the comparison is the same with the later entries of that
  metric removed from \<open>tr\<close>, and every from region of the name of \<open>tr\<close> with an
  entry of that metric whose limit \<^verbatim>\<open>!=\<close> the limit of \<open>rt\<close> gives the issue with the
  limit of \<open>rt\<close>.
\<close>

theorem first_occurrence_decides:
  "(ComputeProject.Quotas (project tq) = pre @ t # post \<and> (\<forall>x\<in>set pre. Metric x \<noteq> Metric t) \<longrightarrow>
      diff fp tp (Some fq) (Some tq) st =
        diff fp tp (Some fq)
          (Some (tq\<lparr>project := \<lparr>ComputeProject.Quotas =
             pre @ t # filter (\<lambda>x. Metric x \<noteq> Metric t) post\<rparr>\<rparr>)) st
      \<and> (\<forall>q\<in>set (ComputeProject.Quotas (project fq)).
            Metric q = Metric t \<and> float_ne (Limit t) (Limit q) \<longrightarrow>
            \<lparr>fromProjectId = Project.Name fp, toProjectId = Project.Name tp, region = [],
             metric = Metric q, fromLimit = Limit q, toLimit = Limit t\<rparr>
            \<in> set (issues (snd (diff fp tp (Some fq) (Some tq) st)))))
   \<and> (regionList fq = Some frl \<and> regionList tq = Some trl \<and> Items trl = rpre @ tr # rpost
       \<and> (\<forall>x\<in>set rpre. Region.Name x \<noteq> Region.Name tr) \<longrightarrow>
      diff fp tp (Some fq) (Some tq) st =
        diff fp tp (Some fq)
          (Some (tq\<lparr>regionList := Some \<lparr>Items =
             rpre @ tr # filter (\<lambda>x. Region.Name x \<noteq> Region.Name tr) rpost\<rparr>\<rparr>)) st
      \<and> (Region.Quotas tr = rqpre @ rt # rqpost \<and> (\<forall>x\<in>set rqpre. Metric x \<noteq> Metric rt) \<longrightarrow>
            diff fp tp (Some fq) (Some tq) st =
              diff fp tp (Some fq)
                (Some (tq\<lparr>regionList := Some \<lparr>Items =
                   rpre @ tr\<lparr>Region.Quotas :=
                            rqpre @ rt # filter (\<lambda>x. Metric x \<noteq> Metric rt) rqpost\<rparr>
                     # rpost\<rparr>\<rparr>)) st
            \<and> (\<forall>fr\<in>set (Items frl). Region.Name fr = Region.Name tr \<longrightarrow>
                 (\<forall>q\<in>set (Region.Quotas fr).
                    Metric q = Metric rt \<and> float_ne (Limit rt) (Limit q) \<longrightarrow>
                    \<lparr>fromProjectId = Project.Name fp, toProjectId = Project.Name tp,
                     region = Region.Name fr, metric = Metric q, fromLimit = Limit q,
                     toLimit = Limit rt\<rparr>
                    \<in> set (issues (snd (diff fp tp (Some fq) (Some tq) st)))))))"
proof (intro conjI impI ballI)
  assume a: "ComputeProject.Quotas (project tq) = pre @ t # post \<and> (\<forall>x\<in>set pre. Metric x \<noteq> Metric t)"
  then show "diff fp tp (Some fq) (Some tq) st =
        diff fp tp (Some fq)
          (Some (tq\<lparr>project := \<lparr>ComputeProject.Quotas =
             pre @ t # filter (\<lambda>x. Metric x \<noteq> Metric t) post\<rparr>\<rparr>)) st"
    by (simp add: diff_later_quotas_dropped)
  fix q assume "q \<in> set (ComputeProject.Quotas (project fq))"
    and "Metric q = Metric t \<and> float_ne (Limit t) (Limit q)"
  with a show "\<lparr>fromProjectId = Project.Name fp, toProjectId = Project.Name tp, region = [],
             metric = Metric q, fromLimit = Limit q, toLimit = Limit t\<rparr>
            \<in> set (issues (snd (diff fp tp (Some fq) (Some tq) st)))"
    by (intro project_issue_of_first [where pre = pre and post = post]) simp_all
next
  assume b: "regionList fq = Some frl \<and> regionList tq = Some trl \<and> Items trl = rpre @ tr # rpost
       \<and> (\<forall>x\<in>set rpre. Region.Name x \<noteq> Region.Name tr)"
  then show "diff fp tp (Some fq) (Some tq) st =
        diff fp tp (Some fq)
          (Some (tq\<lparr>regionList := Some \<lparr>Items =
             rpre @ tr # filter (\<lambda>x. Region.Name x \<noteq> Region.Name tr) rpost\<rparr>\<rparr>)) st"
    by (simp add: diff_later_regions_dropped [where trl = trl])
  assume c: "Region.Quotas tr = rqpre @ rt # rqpost \<and> (\<forall>x\<in>set rqpre. Metric x \<noteq> Metric rt)"
  from b c show "diff fp tp (Some fq) (Some tq) st =
              diff fp tp (Some fq)
                (Some (tq\<lparr>regionList := Some \<lparr>Items =
                   rpre @ tr\<lparr>Region.Quotas :=
                            rqpre @ rt # filter (\<lambda>x. Metric x \<noteq> Metric rt) rqpost\<rparr>
                     # rpost\<rparr>\<rparr>)) st"
    by (simp add: diff_later_region_quotas_dropped [where trl = trl])
  fix fr q assume "fr \<in> set (Items frl)" and "Region.Name fr = Region.Name tr"
    and "q \<in> set (Region.Quotas fr)" and "Metric q = Metric rt \<and> float_ne (Limit rt) (Limit q)"
  with b c show "\<lparr>fromProjectId = Project.Name fp, toProjectId = Project.Name tp,
                     region = Region.Name fr, metric = Metric q, fromLimit = Limit q,
                     toLimit = Limit rt\<rparr>
                    \<in> set (issues (snd (diff fp tp (Some fq) (Some tq) st)))"
    by (intro region_issue_of_first [where frl = frl and trl = trl and rpre = rpre and rpost = rpost
          and rqpre = rqpre and rqpost = rqpost and tr = tr]) simp_all
qed

text \<open>
  C10, witness: \<^verbatim>\<open>CPUS\<close> is 24 on the from side; on the to side it is 32 and then 24, at
  project level and in the first of two regions \<^verbatim>\<open>us-east1\<close>. Both issues are 24 against
  32, and each later duplicate can be removed without changing the comparison.
\<close>

theorem first_occurrence_decides_witness:
  "\<lparr>fromProjectId = ''Billing (dev)'', toProjectId = ''Billing (staging)'', region = [],
     metric = ''CPUS'', fromLimit = Finite 24, toLimit = Finite 32\<rparr>
     \<in> set (issues (snd (diff dev_billing staging_billing (Some duplicates_from) (Some duplicates_to) st0)))
   \<and> \<lparr>fromProjectId = ''Billing (dev)'', toProjectId = ''Billing (staging)'', region = ''us-east1'',
     metric = ''CPUS'', fromLimit = Finite 24, toLimit = Finite 32\<rparr>
     \<in> set (issues (snd (diff dev_billing staging_billing (Some duplicates_from) (Some duplicates_to) st0)))
   \<and> diff dev_billing staging_billing (Some duplicates_from) (Some duplicates_to) st0 =
       diff dev_billing staging_billing (Some duplicates_from)
         (Some (snapshot ''prj-staging-billing-cd34''
            [quota ''DISKS_TOTAL_GB'' (Finite 5), quota ''CPUS'' (Finite 32)]
            [region_of ''europe-west1'' [],
             region_of ''us-east1''
               [quota ''DISKS_TOTAL_GB'' (Finite 5), quota ''CPUS'' (Finite 32), quota ''CPUS'' (Finite 24)],
             region_of ''us-east1'' [quota ''CPUS'' (Finite 24)]])) st0
   \<and> diff dev_billing staging_billing (Some duplicates_from) (Some duplicates_to) st0 =
       diff dev_billing staging_billing (Some duplicates_from)
         (Some (snapshot ''prj-staging-billing-cd34''
            [quota ''DISKS_TOTAL_GB'' (Finite 5), quota ''CPUS'' (Finite 32), quota ''CPUS'' (Finite 24)]
            [region_of ''europe-west1'' [],
             region_of ''us-east1''
               [quota ''DISKS_TOTAL_GB'' (Finite 5), quota ''CPUS'' (Finite 32), quota ''CPUS'' (Finite 24)]]))
         st0
   \<and> diff dev_billing staging_billing (Some duplicates_from) (Some duplicates_to) st0 =
       diff dev_billing staging_billing (Some duplicates_from)
         (Some (snapshot ''prj-staging-billing-cd34''
            [quota ''DISKS_TOTAL_GB'' (Finite 5), quota ''CPUS'' (Finite 32), quota ''CPUS'' (Finite 24)]
            [region_of ''europe-west1'' [],
             region_of ''us-east1'' [quota ''DISKS_TOTAL_GB'' (Finite 5), quota ''CPUS'' (Finite 32)],
             region_of ''us-east1'' [quota ''CPUS'' (Finite 24)]])) st0"
proof -
  let ?d = "quota ''DISKS_TOTAL_GB'' (Finite 5)"
  let ?c32 = "quota ''CPUS'' (Finite 32)"
  let ?c24 = "quota ''CPUS'' (Finite 24)"
  let ?eu = "region_of ''europe-west1'' []"
  let ?us1 = "region_of ''us-east1'' [?d, ?c32, ?c24]"
  let ?us2 = "region_of ''us-east1'' [?c24]"
  let ?fus = "region_of ''us-east1'' [?c24]"
  let ?frl = "\<lparr>Items = [?fus]\<rparr>"
  let ?trl = "\<lparr>Items = [?eu, ?us1, ?us2]\<rparr>"
  let ?D = "diff dev_billing staging_billing (Some duplicates_from) (Some duplicates_to) st0"
  note th = first_occurrence_decides
    [where tq = duplicates_to and fq = duplicates_from and pre = "[?d]" and t = ?c32
       and post = "[?c24]" and fp = dev_billing and tp = staging_billing and st = st0
       and frl = ?frl and trl = ?trl and rpre = "[?eu]" and tr = ?us1 and rpost = "[?us2]"
       and rqpre = "[?d]" and rt = ?c32 and rqpost = "[?c24]"]
  have p1: "ComputeProject.Quotas (project duplicates_to) = [?d] @ ?c32 # [?c24]"
    by (simp add: duplicates_to_def snapshot_def)
  have p2: "\<forall>x\<in>set [?d]. Metric x \<noteq> Metric ?c32" by (simp add: quota_def)
  have r1: "regionList duplicates_from = Some ?frl" by (simp add: duplicates_from_def snapshot_def)
  have r2: "regionList duplicates_to = Some ?trl" by (simp add: duplicates_to_def snapshot_def)
  have r3: "Items ?trl = [?eu] @ ?us1 # [?us2]" by simp
  have r4: "\<forall>x\<in>set [?eu]. Region.Name x \<noteq> Region.Name ?us1" by (simp add: region_of_def)
  have r5: "Region.Quotas ?us1 = [?d] @ ?c32 # [?c24]" by (simp add: region_of_def)
  have q1: "?c24 \<in> set (ComputeProject.Quotas (project duplicates_from))"
    by (simp add: duplicates_from_def snapshot_def)
  have q2: "Metric ?c24 = Metric ?c32 \<and> float_ne (Limit ?c32) (Limit ?c24)"
    by (simp add: quota_def float_ne_def)
  have f1: "?fus \<in> set (Items ?frl)" by simp
  have f2: "Region.Name ?fus = Region.Name ?us1" by (simp add: region_of_def)
  have f3: "?c24 \<in> set (Region.Quotas ?fus)" by (simp add: region_of_def)
  from th p1 p2 have a1: "?D = diff dev_billing staging_billing (Some duplicates_from)
      (Some (duplicates_to\<lparr>project := \<lparr>ComputeProject.Quotas =
         [?d] @ ?c32 # filter (\<lambda>x. Metric x \<noteq> Metric ?c32) [?c24]\<rparr>\<rparr>)) st0"
    by blast
  from th p1 p2 q1 q2 have a2:
    "\<lparr>fromProjectId = Project.Name dev_billing, toProjectId = Project.Name staging_billing, region = [],
      metric = Metric ?c24, fromLimit = Limit ?c24, toLimit = Limit ?c32\<rparr> \<in> set (issues (snd ?D))"
    by blast
  from th r1 r2 r3 r4 have b1: "?D = diff dev_billing staging_billing (Some duplicates_from)
      (Some (duplicates_to\<lparr>regionList := Some \<lparr>Items =
         [?eu] @ ?us1 # filter (\<lambda>x. Region.Name x \<noteq> Region.Name ?us1) [?us2]\<rparr>\<rparr>)) st0"
    by blast
  from th r1 r2 r3 r4 r5 p2 have b2: "?D = diff dev_billing staging_billing (Some duplicates_from)
      (Some (duplicates_to\<lparr>regionList := Some \<lparr>Items =
         [?eu] @ ?us1\<lparr>Region.Quotas := [?d] @ ?c32 # filter (\<lambda>x. Metric x \<noteq> Metric ?c32) [?c24]\<rparr>
           # [?us2]\<rparr>\<rparr>)) st0"
    by blast
  from th r1 r2 r3 r4 r5 p2 f1 f2 f3 q2 have b3:
    "\<lparr>fromProjectId = Project.Name dev_billing, toProjectId = Project.Name staging_billing,
      region = Region.Name ?fus, metric = Metric ?c24, fromLimit = Limit ?c24, toLimit = Limit ?c32\<rparr>
      \<in> set (issues (snd ?D))"
    by blast
  have e1: "duplicates_to\<lparr>project := \<lparr>ComputeProject.Quotas =
         [?d] @ ?c32 # filter (\<lambda>x. Metric x \<noteq> Metric ?c32) [?c24]\<rparr>\<rparr> =
       snapshot ''prj-staging-billing-cd34'' [?d, ?c32] [?eu, ?us1, ?us2]"
    by (simp add: duplicates_to_def snapshot_def quota_def)
  have e2: "duplicates_to\<lparr>regionList := Some \<lparr>Items =
         [?eu] @ ?us1 # filter (\<lambda>x. Region.Name x \<noteq> Region.Name ?us1) [?us2]\<rparr>\<rparr> =
       snapshot ''prj-staging-billing-cd34'' [?d, ?c32, ?c24] [?eu, ?us1]"
    by (simp add: duplicates_to_def snapshot_def region_of_def)
  have e3: "duplicates_to\<lparr>regionList := Some \<lparr>Items =
         [?eu] @ ?us1\<lparr>Region.Quotas := [?d] @ ?c32 # filter (\<lambda>x. Metric x \<noteq> Metric ?c32) [?c24]\<rparr>
           # [?us2]\<rparr>\<rparr> =
       snapshot ''prj-staging-billing-cd34'' [?d, ?c32, ?c24]
         [?eu, region_of ''us-east1'' [?d, ?c32], ?us2]"
    by (simp add: duplicates_to_def snapshot_def region_of_def quota_def)
  have n: "Project.Name dev_billing = ''Billing (dev)''"
    "Project.Name staging_billing = ''Billing (staging)''"
    "Metric ?c24 = ''CPUS''" "Limit ?c24 = Finite 24" "Limit ?c32 = Finite 32"
    "Region.Name ?fus = ''us-east1''"
    by (simp_all add: dev_billing_def staging_billing_def quota_def region_of_def)
  from a1 a2 b1 b2 b3 show ?thesis unfolding e1 e2 e3 n by blast
qed

end
